theory Spec2Isabelle
  imports Main "HOL-Library.Word" "HOL-Library.Multiset"
begin

section \<open>JavaScript values\<close>

text \<open>
  The FreeRTOS view (\<^verbatim>\<open>src/frontend/rtos/rtos-freertos.ts\<close>) computes with JavaScript
  numbers that come out of \<^verbatim>\<open>parseInt\<close> on strings delivered by the debugger: task
  counts, addresses, task numbers and run-time counters. Such a number is \<^verbatim>\<open>NaN\<close> or an
  integer. The embedding keeps the integer exactly; binary64 arithmetic on integers is
  exact up to magnitude \<open>2^53 - 1\<close>, which covers every address and counter of a 32-bit
  target, and this is the range the embedding speaks about. The one place where the
  program leaves the integers is the run-time percentage, whose binary64 rounding is
  written out below. \<^verbatim>\<open>undefined\<close> is \<open>None\<close> of an option type.
\<close>

datatype jsnum = NaN | Num int

definition MAX_SAFE_INTEGER :: int where
  "MAX_SAFE_INTEGER = 9007199254740991"

fun js_sub :: "jsnum \<Rightarrow> jsnum \<Rightarrow> jsnum" where
  "js_sub (Num a) (Num b) = Num (a - b)"
| "js_sub _ _ = NaN"

fun js_abs :: "jsnum \<Rightarrow> jsnum" where
  "js_abs (Num a) = Num \<bar>a\<bar>"
| "js_abs NaN = NaN"

fun js_lt :: "jsnum \<Rightarrow> jsnum \<Rightarrow> bool" where
  "js_lt (Num a) (Num b) = (a < b)"
| "js_lt _ _ = False"

fun js_le :: "jsnum \<Rightarrow> jsnum \<Rightarrow> bool" where
  "js_le (Num a) (Num b) = (a \<le> b)"
| "js_le _ _ = False"

text \<open>Strict equality \<^verbatim>\<open>===\<close> on numbers: \<^verbatim>\<open>NaN\<close> equals nothing.\<close>

fun js_eq :: "jsnum \<Rightarrow> jsnum \<Rightarrow> bool" where
  "js_eq (Num a) (Num b) = (a = b)"
| "js_eq _ _ = False"

text \<open>Truthiness: a number is falsy when it is 0 or \<^verbatim>\<open>NaN\<close>, a string when it is
  empty, and \<^verbatim>\<open>undefined\<close> always. The string \<^verbatim>\<open>"0"\<close> is truthy.\<close>

fun truthy_num :: "jsnum \<Rightarrow> bool" where
  "truthy_num (Num n) = (n \<noteq> 0)"
| "truthy_num NaN = False"

fun truthy_numo :: "jsnum option \<Rightarrow> bool" where
  "truthy_numo (Some n) = truthy_num n"
| "truthy_numo None = False"

fun truthy_str :: "string option \<Rightarrow> bool" where
  "truthy_str (Some s) = (s \<noteq> [])"
| "truthy_str None = False"

text \<open>A value of type number that may still be \<^verbatim>\<open>undefined\<close>, read as a number
  (\<^verbatim>\<open>ToNumber(undefined)\<close> is \<^verbatim>\<open>NaN\<close>).\<close>

fun to_number :: "jsnum option \<Rightarrow> jsnum" where
  "to_number (Some n) = n"
| "to_number None = NaN"

subsection \<open>Number to string\<close>

definition digit_char :: "nat \<Rightarrow> char" where
  "digit_char d = ''0123456789'' ! d"

text \<open>The decimal digits of a natural number, given as an integer.\<close>

function dec :: "int \<Rightarrow> string" where
  "dec n = (if n < 10 then [digit_char (nat n)] else dec (n div 10) @ [digit_char (nat (n mod 10))])"
  by pat_completeness auto
termination
  by (relation "measure nat") auto

declare dec.simps [simp del]

fun js_toString :: "jsnum \<Rightarrow> string" where
  "js_toString NaN = ''NaN''"
| "js_toString (Num n) = (if n < 0 then ''-'' else []) @ dec \<bar>n\<bar>"

text \<open>String conversion inside a template or a concatenation.\<close>

fun str_of :: "string option \<Rightarrow> string" where
  "str_of (Some s) = s"
| "str_of None = ''undefined''"

fun numo_toString :: "jsnum option \<Rightarrow> string" where
  "numo_toString (Some n) = js_toString n"
| "numo_toString None = ''undefined''"

definition padStart :: "nat \<Rightarrow> char \<Rightarrow> string \<Rightarrow> string" where
  "padStart w c s = replicate (w - length s) c @ s"

subsection \<open>parseInt\<close>

text \<open>
  \<^verbatim>\<open>parseInt(s)\<close> with no radix: leading white space is skipped, then an optional sign,
  then an optional \<^verbatim>\<open>0x\<close>/\<^verbatim>\<open>0X\<close> that selects radix 16, then the longest run of digits of the
  radix; no digit at all gives \<^verbatim>\<open>NaN\<close>. Characters are bytes here, so only the ASCII white
  space is recognised. \<^verbatim>\<open>parseInt(undefined)\<close> parses the string \<^verbatim>\<open>"undefined"\<close>.
\<close>

definition isWhite :: "char \<Rightarrow> bool" where
  "isWhite c = (c \<in> set [CHR '' '', CHR 0x09, CHR 0x0A, CHR 0x0B, CHR 0x0C, CHR 0x0D])"

definition digitVal :: "char \<Rightarrow> nat option" where
  "digitVal c =
     (let n = (of_char c :: nat) in
      if 48 \<le> n \<and> n \<le> 57 then Some (n - 48)
      else if 97 \<le> n \<and> n \<le> 122 then Some (n - 87)
      else if 65 \<le> n \<and> n \<le> 90 then Some (n - 55)
      else None)"

definition isDigit :: "nat \<Rightarrow> char \<Rightarrow> bool" where
  "isDigit radix c = (case digitVal c of Some d \<Rightarrow> d < radix | None \<Rightarrow> False)"

definition digitsValue :: "nat \<Rightarrow> string \<Rightarrow> int" where
  "digitsValue radix ds = foldl (\<lambda>a c. a * int radix + int (the (digitVal c))) 0 ds"

definition parseDigits :: "int \<Rightarrow> nat \<Rightarrow> string \<Rightarrow> jsnum" where
  "parseDigits sign radix s =
     (let ds = takeWhile (isDigit radix) s in
      if ds = [] then NaN else Num (sign * digitsValue radix ds))"

fun parseRadix :: "int \<Rightarrow> string \<Rightarrow> jsnum" where
  "parseRadix sign (z # x # r) =
     (if z = CHR ''0'' \<and> (x = CHR ''x'' \<or> x = CHR ''X'') then parseDigits sign 16 r
      else parseDigits sign 10 (z # x # r))"
| "parseRadix sign s = parseDigits sign 10 s"

fun parseSign :: "string \<Rightarrow> jsnum" where
  "parseSign (c # r) =
     (if c = CHR ''-'' then parseRadix (-1) r
      else if c = CHR ''+'' then parseRadix 1 r
      else parseRadix 1 (c # r))"
| "parseSign [] = NaN"

definition parseInt :: "string \<Rightarrow> jsnum" where
  "parseInt s = parseSign (dropWhile isWhite s)"

definition parseInto :: "string option \<Rightarrow> jsnum" where
  "parseInto v = parseInt (str_of v)"

subsection \<open>The run-time percentage in binary64\<close>

text \<open>
  \<^verbatim>\<open>(parseInt(c) / total) * 100\<close> is a binary64 computation: the quotient is rounded to
  53 significant bits (ties to even), and so is the product. A finite double is
  \<open>Fl m e\<close>, the number \<open>m * 2^e\<close>. Exponent overflow and underflow cannot occur for
  operands within the integer range stated above and are not modelled.
\<close>

datatype jsfloat = FNaN | FInf bool | Fl int int

function bitlen :: "int \<Rightarrow> int" where
  "bitlen n = (if n \<le> 0 then 0 else 1 + bitlen (n div 2))"
  by pat_completeness auto
termination
  by (relation "measure nat") auto

declare bitlen.simps [simp del]

text \<open>\<open>fl_ratio p q\<close>: the positive rational \<open>p / q\<close> rounded to a 53-bit mantissa.\<close>

definition fl_ratio :: "int \<Rightarrow> int \<Rightarrow> int \<times> int" where
  "fl_ratio p q =
     (let k = bitlen p - bitlen q;
          lg = (if q * 2 ^ nat k \<le> p * 2 ^ nat (- k) then k else k - 1);
          e = lg - 52;
          nu = p * 2 ^ nat (- e);
          de = q * 2 ^ nat e;
          qt = nu div de;
          r = nu mod de
      in (if de < 2 * r \<or> (2 * r = de \<and> odd qt) then qt + 1 else qt, e))"

text \<open>\<open>fl_round n d\<close>: the rational \<open>n / d\<close>, with \<open>0 < d\<close>, as a double.\<close>

definition fl_round :: "int \<Rightarrow> int \<Rightarrow> jsfloat" where
  "fl_round n d =
     (if n = 0 then Fl 0 0
      else (case fl_ratio \<bar>n\<bar> d of (m, e) \<Rightarrow> Fl (sgn n * m) e))"

fun js_div :: "jsnum \<Rightarrow> jsnum \<Rightarrow> jsfloat" where
  "js_div (Num a) (Num b) =
     (if b = 0 then (if a = 0 then FNaN else FInf (0 < a))
      else fl_round (a * sgn b) \<bar>b\<bar>)"
| "js_div _ _ = FNaN"

fun js_mul :: "jsfloat \<Rightarrow> int \<Rightarrow> jsfloat" where
  "js_mul (Fl m e) c =
     (if 0 \<le> e then fl_round (m * c * 2 ^ nat e) 1 else fl_round (m * c) (2 ^ nat (- e)))"
| "js_mul (FInf pos) c = (if c = 0 then FNaN else FInf (pos = (0 < c)))"
| "js_mul FNaN c = FNaN"

text \<open>
  \<^verbatim>\<open>x.toFixed(2)\<close>: the integer \<open>n\<close> nearest to \<open>100 * |x|\<close>, the larger one on a tie,
  written with at least three digits and a point before the last two; a minus sign
  when \<open>x < 0\<close>. (From \<open>10^21\<close> on JavaScript switches to exponent notation; the
  percentage of two counters in range stays far below.)
\<close>

definition fixed2 :: "int \<Rightarrow> string" where
  "fixed2 n = (let ds = padStart 3 (CHR ''0'') (dec n)
               in take (length ds - 2) ds @ ''.'' @ drop (length ds - 2) ds)"

fun toFixed2 :: "jsfloat \<Rightarrow> string" where
  "toFixed2 FNaN = ''NaN''"
| "toFixed2 (FInf pos) = (if pos then ''Infinity'' else ''-Infinity'')"
| "toFixed2 (Fl m e) =
     (let a = \<bar>m\<bar>;
          n = (if 0 \<le> e then a * 2 ^ nat e * 100
               else (a * 200 + 2 ^ nat (- e)) div (2 * 2 ^ nat (- e)))
      in (if m < 0 then ''-'' else []) @ fixed2 n)"

section \<open>Debugger objects\<close>

text \<open>
  The children of a debugger variable arrive as one object with three entries per
  child \<open>n\<close>: \<^verbatim>\<open>n-val\<close> (a string), \<^verbatim>\<open>n-ref\<close> (a variables reference, a number) and \<^verbatim>\<open>n-exp\<close>
  (a string); a missing key reads \<^verbatim>\<open>undefined\<close>. The three maps below are indexed by
  the child's name.
\<close>

record obj =
  vals :: "string \<Rightarrow> string option"
  refs :: "string \<Rightarrow> nat option"
  exps :: "string \<Rightarrow> string option"

fun truthy_ref :: "nat option \<Rightarrow> bool" where
  "truthy_ref (Some r) = (r \<noteq> 0)"
| "truthy_ref None = False"

text \<open>An \<^verbatim>\<open>RTOSVarHelper\<close>: the expression it evaluates and the variables reference left
  by its last evaluation.\<close>

record varhelper =
  expression :: string
  varReference :: "nat option"

datatype exn = Busy | TypeError | Rejected string

text \<open>What the console receives: \<^verbatim>\<open>console.error('FreeRTOS.refresh() failed: ', e)\<close>,
  \<^verbatim>\<open>console.log('FreeRTOS read thread info error', e)\<close> and \<^verbatim>\<open>console.log(e)\<close>.\<close>

datatype logentry = RefreshFailed exn | ThreadInfoError exn | Logged exn

datatype progstatus = Stopped | Running

datatype request =
    ReqGetValue varhelper
  | ReqGetVarChildren varhelper
  | ReqGetVarIfEmpty "string option"
  | ReqVarChildrenObj varhelper
  | ReqChildrenObj "nat option" string
  | ReqExprValChildrenObj string
  | ReqExprVal string
  | ReqReadMemory string jsnum

text \<open>
  The collaborators of the class are not part of the file: the debug session, the
  helpers of \<^verbatim>\<open>rtos-common\<close> and \<^verbatim>\<open>hexFormat\<close> of \<^verbatim>\<open>utils\<close>. They are parameters of the
  model. Every asynchronous request is answered with a value or rejected with an
  exception; the answer may depend on how many requests were issued before (the first
  argument), so that the target may change between two reads. \<open>progStatus\<close> is the
  field \<^verbatim>\<open>this.progStatus\<close>, which the session's event handlers write while a pass
  waits for an answer; it is read at the same logical time.
\<close>

record env =
  progStatus :: "nat \<Rightarrow> progstatus"
  getValue :: "nat \<Rightarrow> varhelper \<Rightarrow> exn + string option"
  getVarChildren :: "nat \<Rightarrow> varhelper \<Rightarrow> exn + string option list"
  getVarIfEmpty :: "nat \<Rightarrow> string option \<Rightarrow> exn + varhelper option"
  varGetVarChildrenObj :: "nat \<Rightarrow> varhelper \<Rightarrow> exn + obj"
  getVarChildrenObj :: "nat \<Rightarrow> nat option \<Rightarrow> string \<Rightarrow> exn + obj"
  getExprValChildrenObj :: "nat \<Rightarrow> string \<Rightarrow> exn + obj"
  getExprVal :: "nat \<Rightarrow> string \<Rightarrow> exn + string option"
  readMemory :: "nat \<Rightarrow> string \<Rightarrow> jsnum \<Rightarrow> exn + 8 word list option"
  hexFormat :: "jsnum \<Rightarrow> nat option \<Rightarrow> string"
  toISOString :: string
  deltaMs :: string

section \<open>The state of the view\<close>

record stackinfo =
  stackStart :: jsnum
  stackTopCurrent :: jsnum
  stackCurUsed :: jsnum
  stackEnd :: "jsnum option"
  stackSize :: "jsnum option"
  stackFree :: "jsnum option"
  stackPeakUsed :: "nat option"
  bytes :: "8 word list option"

text \<open>A \<^verbatim>\<open>FreeRTOSThreadInfo\<close>. Optional keys are options; \<open>Prio\<close> holds whatever
  \<^verbatim>\<open>uxPriority-val\<close> was, \<^verbatim>\<open>undefined\<close> included.\<close>

record thread =
  ID :: "string option"
  Address :: string
  TaskName :: string
  Status :: string
  Prio :: "string option"
  StackBeg :: string
  StackTop :: string
  StackUsed :: string
  StackEnd :: "string option"
  StackSize :: "string option"
  StackPeak :: "string option"
  StackFree :: "string option"
  Runtime :: "string option"
  stackInfo :: stackinfo

datatype rtosstatus = StatusNone | Initialized | Failed

text \<open>
  The fields of \<^verbatim>\<open>RTOSFreeRTOS\<close>, and two logs that the proofs observe: the requests
  sent to the collaborators, in order, and the exceptions written to the console.
\<close>

record rtos =
  status :: rtosstatus
  uxCurrentNumberOfTasks :: varhelper
  uxCurrentNumberOfTasksVal :: "jsnum option"
  pxReadyTasksLists :: varhelper
  pxReadyTasksListsItems :: "varhelper option list option"
  xDelayedTaskList1 :: "varhelper option"
  xDelayedTaskList2 :: "varhelper option"
  xPendingReadyList :: "varhelper option"
  pxCurrentTCB :: varhelper
  xSuspendedTaskList :: "varhelper option"
  xTasksWaitingTermination :: "varhelper option"
  ulTotalRunTime :: "varhelper option"
  ulTotalRunTimeVal :: "jsnum option"
  stale :: bool
  curThreadAddr :: "jsnum option"
  foundThreads :: "thread list"
  finalThreads :: "thread list"
  timeInfo :: string
  lastValidHtml :: string
  requests :: "request list"
  console :: "logentry list"

definition maxThreads :: int where
  "maxThreads = 1024"

definition rtosName :: string where
  "rtosName = ''FreeRTOS''"

text \<open>The outcome of an asynchronous function: its promise is fulfilled, rejected, or
  never settled.\<close>

datatype 'a res = Ok 'a | Throw exn | Hang

definition now :: "rtos \<Rightarrow> nat" where
  "now s = length (requests s)"

definition issue :: "request \<Rightarrow> rtos \<Rightarrow> rtos" where
  "issue r s = s\<lparr>requests := requests s @ [r]\<rparr>"

definition logEntry :: "logentry \<Rightarrow> rtos \<Rightarrow> rtos" where
  "logEntry e s = s\<lparr>console := console s @ [e]\<rparr>"

section \<open>getStackInfo\<close>

text \<open>The watermark loop: \<^verbatim>\<open>top\<close> runs down from the length of the region while the byte
  below it is the fill byte.\<close>

fun scanTop :: "8 word list \<Rightarrow> 8 word \<Rightarrow> nat \<Rightarrow> nat" where
  "scanTop bs wm 0 = 0"
| "scanTop bs wm (Suc t) = (if bs ! t \<noteq> wm then Suc t else scanTop bs wm t)"

text \<open>
  The answer to \<^verbatim>\<open>readMemory\<close> is the decoded \<^verbatim>\<open>body.data\<close>, or \<open>None\<close> when the response
  carries no data, in which case building the buffer throws a \<^verbatim>\<open>TypeError\<close>. With a
  static end of stack the read and the scan sit in a \<^verbatim>\<open>try\<close> whose handler only logs;
  without one the read is awaited outside any \<^verbatim>\<open>try\<close>.
\<close>

definition getStackInfo :: "env \<Rightarrow> obj \<Rightarrow> 8 word \<Rightarrow> rtos \<Rightarrow> stackinfo res \<times> rtos" where
  "getStackInfo E thInfo waterMark s =
     (let pxStack = vals thInfo ''pxStack'';
          pxTopOfStack = vals thInfo ''pxTopOfStack'';
          pxEndOfStack = vals thInfo ''pxEndOfStack'';
          start = parseInto pxStack;
          top = parseInto pxTopOfStack;
          stackUsedCur = js_sub start top;
          si = \<lparr>stackStart = start, stackTopCurrent = top, stackCurUsed = js_abs stackUsedCur,
                stackEnd = None, stackSize = None, stackFree = None,
                stackPeakUsed = None, bytes = None\<rparr>
      in if truthy_str pxEndOfStack then
           (let end = parseInto pxEndOfStack;
                size0 = js_sub start end;
                incr = (if js_lt size0 (Num 0) then 1 else - 1 :: int);
                size = js_abs size0;
                si1 = si\<lparr>stackEnd := Some end, stackSize := Some size,
                         stackFree := Some (js_sub size (stackCurUsed si))\<rparr>;
                memoryReference = (if 0 < incr then hexFormat E start (Some 8)
                                   else hexFormat E end (Some 8));
                s1 = issue (ReqReadMemory memoryReference size) s
            in case readMemory E (now s) memoryReference size of
                 Inl e \<Rightarrow> (Ok si1, logEntry (Logged e) s1)
               | Inr None \<Rightarrow> (Ok si1, logEntry (Logged TypeError) s1)
               | Inr (Some buf) \<Rightarrow>
                   (let bs = (if incr < 0 then rev buf else buf)
                    in (Ok (si1\<lparr>bytes := Some bs,
                                 stackPeakUsed := Some (scanTop bs waterMark (length bs))\<rparr>), s1)))
         else
           (let incr = (if js_lt stackUsedCur (Num 0) then 1 else - 1 :: int);
                memoryReference = (if 0 < incr then hexFormat E start (Some 8)
                                   else hexFormat E top (Some 8));
                s1 = issue (ReqReadMemory memoryReference (stackCurUsed si)) s
            in case readMemory E (now s) memoryReference (stackCurUsed si) of
                 Inl e \<Rightarrow> (Throw e, s1)
               | Inr _ \<Rightarrow> (Ok si, s1)))"

section \<open>getThreadInfo\<close>

text \<open>
  \<^verbatim>\<open>await\<close>: the continuation runs when the awaited promise is fulfilled; a rejection is
  thrown on, and a promise that never settles leaves the caller pending.
\<close>

definition andThen :: "'a res \<times> rtos \<Rightarrow> ('a \<Rightarrow> rtos \<Rightarrow> 'b res \<times> rtos) \<Rightarrow> 'b res \<times> rtos" where
  "andThen r f = (case r of (Ok x, s) \<Rightarrow> f x s | (Throw e, s) \<Rightarrow> (Throw e, s) | (Hang, s) \<Rightarrow> (Hang, s))"

definition request :: "request \<Rightarrow> exn + 'a \<Rightarrow> rtos \<Rightarrow> 'a res \<times> rtos" where
  "request r answer s = (case answer of Inl e \<Rightarrow> (Throw e, issue r s) | Inr x \<Rightarrow> (Ok x, issue r s))"

text \<open>\<^verbatim>\<open>tmpThName.match(/"([^*]*)"$/)\<close>: the leftmost double quote from which the rest of
  the string, up to a closing double quote at its very end, holds no asterisk.\<close>

fun matchName :: "string \<Rightarrow> string option" where
  "matchName [] = None"
| "matchName (c # cs) =
     (if c = CHR 0x22 \<and> cs \<noteq> [] \<and> last cs = CHR 0x22 \<and> CHR ''*'' \<notin> set (butlast cs)
      then Some (butlast cs) else matchName cs)"

definition runtimeField :: "string option \<Rightarrow> jsnum option \<Rightarrow> string option" where
  "runtimeField counter totalRunTime =
     (if truthy_str counter \<and> truthy_numo totalRunTime
      then Some (padStart 5 (CHR ''0'')
                   (toFixed2 (js_mul (js_div (parseInto counter) (to_number totalRunTime)) 100)) @ ''%'')
      else None)"

text \<open>The record of one task, lines 179 to 207.\<close>

definition mkThread :: "env \<Rightarrow> rtos \<Rightarrow> obj \<Rightarrow> jsnum \<Rightarrow> string \<Rightarrow> string \<Rightarrow> stackinfo \<Rightarrow> thread" where
  "mkThread E s thInfo threadId thName state si =
     (let th = \<lparr>ID = vals thInfo ''uxTCBNumber'',
                Address = hexFormat E threadId None,
                TaskName = thName,
                Status = (if js_eq threadId (to_number (curThreadAddr s)) then ''RUNNING'' else state),
                Prio = vals thInfo ''uxPriority'',
                StackBeg = hexFormat E (stackStart si) None,
                StackTop = hexFormat E (stackTopCurrent si) None,
                StackUsed = js_toString (stackCurUsed si),
                StackEnd = None, StackSize = None, StackPeak = None, StackFree = None,
                Runtime = None,
                stackInfo = si\<rparr>;
          th1 = (if truthy_str (vals thInfo ''uxBasePriority'')
                 then th\<lparr>Prio := Some (str_of (Prio th) @ '','' @ str_of (vals thInfo ''uxBasePriority''))\<rparr>
                 else th);
          th2 = (if truthy_numo (stackSize si)
                 then th1\<lparr>StackEnd := Some (hexFormat E (to_number (stackEnd si)) None),
                          StackSize := Some (numo_toString (stackSize si)),
                          StackPeak := Some (case stackPeakUsed si of
                                               Some p \<Rightarrow> if p \<noteq> 0 then dec (int p) else ''Read mem fail''
                                             | None \<Rightarrow> ''Read mem fail''),
                          StackFree := Some (numo_toString (stackFree si))\<rparr>
                 else th1\<lparr>StackEnd := Some ''&lt;Unknown&gt;''\<rparr>)
      in th2\<lparr>Runtime := runtimeField (vals thInfo ''ulRunTimeCounter'') (ulTotalRunTimeVal s)\<rparr>)"

text \<open>One turn of the loop over the list, lines 171 to 209: the result is the next
  \<^verbatim>\<open>curRef\<close>.\<close>

definition visitNode :: "env \<Rightarrow> string \<Rightarrow> nat option \<Rightarrow> rtos \<Rightarrow> nat option res \<times> rtos" where
  "visitNode E state curRef s =
     andThen (request (ReqChildrenObj curRef ''pxPrevious'')
                (getVarChildrenObj E (now s) curRef ''pxPrevious'') s)
       (\<lambda>element s1.
          let threadId = parseInto (vals element ''pvOwner'');
              expr = ''((TCB_t*)'' @ hexFormat E threadId None @ '')''
          in andThen (request (ReqExprValChildrenObj expr) (getExprValChildrenObj E (now s1) expr) s1)
               (\<lambda>thInfo s2.
                  let nameExpr = ''(char *)'' @ str_of (exps thInfo ''pcTaskName'')
                  in andThen (request (ReqExprVal nameExpr) (getExprVal E (now s2) nameExpr) s2)
                       (\<lambda>tmpThName s3.
                          case tmpThName of
                            None \<Rightarrow> (Throw TypeError, s3)
                          | Some nm \<Rightarrow>
                              (let thName = (case matchName nm of Some m \<Rightarrow> m | None \<Rightarrow> nm)
                               in andThen (getStackInfo E thInfo 0xA5 s3)
                                    (\<lambda>si s4.
                                       (Ok (refs element ''pxPrevious''),
                                        s4\<lparr>foundThreads := foundThreads s4 @
                                             [mkThread E s4 thInfo threadId thName state si]\<rparr>))))))"

function walkList :: "env \<Rightarrow> string \<Rightarrow> jsnum \<Rightarrow> int \<Rightarrow> nat option \<Rightarrow> rtos \<Rightarrow> unit res \<times> rtos" where
  "walkList E state threadCount thIx curRef s =
     (if js_lt (Num thIx) threadCount
      then (case visitNode E state curRef s of
              (Ok next, s') \<Rightarrow> walkList E state threadCount (thIx + 1) next s'
            | (Throw e, s') \<Rightarrow> (Throw e, s')
            | (Hang, s') \<Rightarrow> (Hang, s'))
      else (Ok (), s))"
  by pat_completeness auto
termination
  by (relation "measure (\<lambda>(E, state, threadCount, thIx, curRef, s).
         case threadCount of Num n \<Rightarrow> nat (n - thIx) | NaN \<Rightarrow> 0)")
     (auto split: jsnum.splits)

declare walkList.simps [simp del]

text \<open>
  The promise of \<^verbatim>\<open>getThreadInfo\<close> is resolved or rejected by hand. The handler of the
  \<^verbatim>\<open>try\<close> around the walk logs the exception and calls neither, so after an exception
  inside the walk the promise never settles.
\<close>

definition getThreadInfo :: "env \<Rightarrow> varhelper option \<Rightarrow> string \<Rightarrow> rtos \<Rightarrow> unit res \<times> rtos" where
  "getThreadInfo E varRef state s =
     (case varRef of
        None \<Rightarrow> (Ok (), s)
      | Some v \<Rightarrow>
          if \<not> truthy_ref (varReference v) \<or>
             js_le (to_number (uxCurrentNumberOfTasksVal s)) (Num (int (length (foundThreads s))))
          then (Ok (), s)
          else if progStatus E (now s) \<noteq> Stopped then (Throw Busy, s)
          else andThen (request (ReqVarChildrenObj v) (varGetVarChildrenObj E (now s) v) s)
                 (\<lambda>ob s1.
                    let threadCount = parseInto (vals ob ''uxNumberOfItems'');
                        listEndRef = refs ob ''xListEnd''
                    in if js_le threadCount (Num 0) \<or> \<not> truthy_ref listEndRef then (Ok (), s1)
                       else (case andThen (request (ReqChildrenObj listEndRef ''xListEnd'')
                                             (getVarChildrenObj E (now s1) listEndRef ''xListEnd'') s1)
                                    (\<lambda>listEndObj s2.
                                       walkList E state threadCount 0 (refs listEndObj ''pxPrevious'') s2) of
                               (Ok u, s3) \<Rightarrow> (Ok (), s3)
                             | (Throw e, s3) \<Rightarrow> (Hang, logEntry (ThreadInfoError e) s3)
                             | (Hang, s3) \<Rightarrow> (Hang, s3))))"

section \<open>refresh\<close>

text \<open>
  \<^verbatim>\<open>Array.prototype.sort\<close> is stable, and a comparator result of \<^verbatim>\<open>NaN\<close> counts as 0. For a
  consistent comparator the result is the stable sorted permutation, which insertion
  from the right computes.
\<close>

fun js_insert :: "('a \<Rightarrow> 'a \<Rightarrow> jsnum) \<Rightarrow> 'a \<Rightarrow> 'a list \<Rightarrow> 'a list" where
  "js_insert cmp x [] = [x]"
| "js_insert cmp x (y # ys) =
     (if js_lt (Num 0) (cmp x y) then y # js_insert cmp x ys else x # y # ys)"

definition js_sort :: "('a \<Rightarrow> 'a \<Rightarrow> jsnum) \<Rightarrow> 'a list \<Rightarrow> 'a list" where
  "js_sort cmp xs = foldr (js_insert cmp) xs []"

definition cmpID :: "thread \<Rightarrow> thread \<Rightarrow> jsnum" where
  "cmpID a b = js_sub (parseInto (ID a)) (parseInto (ID b))"

definition cmpAddress :: "thread \<Rightarrow> thread \<Rightarrow> jsnum" where
  "cmpAddress a b = js_sub (parseInt (Address a)) (parseInt (Address b))"

text \<open>Lines 125 to 129. Reading \<^verbatim>\<open>['ID']\<close> of element 0 of an empty array throws.\<close>

definition sortFound :: "thread list \<Rightarrow> exn + thread list" where
  "sortFound found =
     (case found of
        [] \<Rightarrow> Inl TypeError
      | t # ts \<Rightarrow> if truthy_str (ID t) then Inr (js_sort cmpID found)
                  else Inr (js_sort cmpAddress found))"

fun resolveItems :: "env \<Rightarrow> string option list \<Rightarrow> varhelper option list \<Rightarrow> rtos
    \<Rightarrow> varhelper option list res \<times> rtos" where
  "resolveItems E [] tmpArray s = (Ok tmpArray, s)"
| "resolveItems E (v # vars) tmpArray s =
     (case getVarIfEmpty E (now s) v of
        Inl e \<Rightarrow> (Throw e, issue (ReqGetVarIfEmpty v) s)
      | Inr h \<Rightarrow> resolveItems E vars (tmpArray @ [h]) (issue (ReqGetVarIfEmpty v) s))"

fun traverseReady :: "env \<Rightarrow> varhelper option list \<Rightarrow> rtos \<Rightarrow> unit res \<times> rtos" where
  "traverseReady E [] s = (Ok (), s)"
| "traverseReady E (item # items) s =
     (case getThreadInfo E item ''READY'' s of
        (Ok u, s') \<Rightarrow> traverseReady E items s'
      | (Throw e, s') \<Rightarrow> (Throw e, s')
      | (Hang, s') \<Rightarrow> (Hang, s'))"

text \<open>Lines 101 to 124: everything between the test of the count and the sort.\<close>

definition collect :: "env \<Rightarrow> rtos \<Rightarrow> unit res \<times> rtos" where
  "collect E s =
     andThen (case pxReadyTasksListsItems s of
                Some items \<Rightarrow> (Ok (), s)
              | None \<Rightarrow>
                  andThen (request (ReqGetVarChildren (pxReadyTasksLists s))
                             (getVarChildren E (now s) (pxReadyTasksLists s)) s)
                    (\<lambda>vars s1. andThen (resolveItems E vars [] s1)
                       (\<lambda>tmpArray s2. (Ok (), s2\<lparr>pxReadyTasksListsItems := Some tmpArray\<rparr>))))
       (\<lambda>u s1.
     andThen (case ulTotalRunTime s1 of
                None \<Rightarrow> (Ok (), s1)
              | Some h \<Rightarrow>
                  andThen (request (ReqGetValue h) (getValue E (now s1) h) s1)
                    (\<lambda>tmp s2. (Ok (), s2\<lparr>ulTotalRunTimeVal := Some (parseInto tmp)\<rparr>)))
       (\<lambda>u s2.
     andThen (request (ReqGetValue (pxCurrentTCB s2)) (getValue E (now s2) (pxCurrentTCB s2)) s2)
       (\<lambda>cur s3.
     andThen (case pxReadyTasksListsItems s3 of
                None \<Rightarrow> (Throw TypeError, s3\<lparr>curThreadAddr := Some (parseInto cur)\<rparr>)
              | Some items \<Rightarrow> traverseReady E items (s3\<lparr>curThreadAddr := Some (parseInto cur)\<rparr>))
       (\<lambda>u s4.
     andThen (getThreadInfo E (xDelayedTaskList1 s4) ''BLOCKED'' s4)
       (\<lambda>u s5.
     andThen (getThreadInfo E (xDelayedTaskList2 s5) ''BLOCKED'' s5)
       (\<lambda>u s6.
     andThen (getThreadInfo E (xPendingReadyList s6) ''BLOCKED'' s6)
       (\<lambda>u s7.
     andThen (getThreadInfo E (xSuspendedTaskList s7) ''SUSPENDED'' s7)
       (\<lambda>u s8. getThreadInfo E (xTasksWaitingTermination s8) ''TERMINATED'' s8))))))))"

text \<open>Lines 125 to 130: the sort is in place, and the published list is a copy.\<close>

definition publish :: "rtos \<Rightarrow> unit res \<times> rtos" where
  "publish s =
     (case sortFound (foundThreads s) of
        Inl e \<Rightarrow> (Throw e, s)
      | Inr ths \<Rightarrow> (Ok (), s\<lparr>foundThreads := ths, finalThreads := ths\<rparr>))"

text \<open>Lines 91 to 96, before the count is requested.\<close>

definition beginPass :: "env \<Rightarrow> rtos \<Rightarrow> rtos" where
  "beginPass E s = s\<lparr>stale := True, timeInfo := toISOString E,
                       uxCurrentNumberOfTasksVal := Some (Num MAX_SAFE_INTEGER),
                       foundThreads := []\<rparr>"

text \<open>Line 99.\<close>

definition setCount :: "string option \<Rightarrow> rtos \<Rightarrow> rtos" where
  "setCount str s = s\<lparr>uxCurrentNumberOfTasksVal :=
                         Some (if truthy_str str then parseInto str else Num MAX_SAFE_INTEGER)\<rparr>"

definition validCount :: "jsnum \<Rightarrow> bool" where
  "validCount n = (js_lt (Num 0) n \<and> js_le n (Num maxThreads))"

text \<open>The body of the \<^verbatim>\<open>try\<close>, lines 99 to 137, given the string read for the count.\<close>

definition refreshBody :: "env \<Rightarrow> string option \<Rightarrow> rtos \<Rightarrow> unit res \<times> rtos" where
  "refreshBody E str s =
     (let s1 = setCount str s
      in andThen (if validCount (to_number (uxCurrentNumberOfTasksVal s1))
                  then andThen (collect E s1) (\<lambda>u s2. publish s2)
                  else (Ok (), s1\<lparr>finalThreads := []\<rparr>))
           (\<lambda>u s3. (Ok (), s3\<lparr>stale := False,
                               timeInfo := timeInfo s3 @ '' in '' @ deltaMs E @ '' ms''\<rparr>)))"

text \<open>
  \<^verbatim>\<open>refresh\<close> resolves its promise in every handler: after the body, in the \<^verbatim>\<open>catch\<close> of the
  body and when reading the count is rejected; both handlers write the exception to
  the console. It stays pending when the body does.
\<close>

definition refresh :: "env \<Rightarrow> rtos \<Rightarrow> unit res \<times> rtos" where
  "refresh E s =
     (if progStatus E (now s) \<noteq> Stopped then (Ok (), s)
      else
        (let s0 = beginPass E s;
             s1 = issue (ReqGetValue (uxCurrentNumberOfTasks s0)) s0
         in case getValue E (now s0) (uxCurrentNumberOfTasks s0) of
              Inl reason \<Rightarrow> (Ok (), logEntry (RefreshFailed reason) s1)
            | Inr str \<Rightarrow>
                (case refreshBody E str s1 of
                   (Ok u, s2) \<Rightarrow> (Ok (), s2)
                 | (Throw e, s2) \<Rightarrow> (Ok (), logEntry (RefreshFailed e) s2)
                 | (Hang, s2) \<Rightarrow> (Hang, s2))))"

section \<open>getHTML\<close>

definition dq :: string where
  "dq = [CHR 0x22]"

definition nl :: string where
  "nl = [CHR 0x0A]"

definition toLower :: "char \<Rightarrow> char" where
  "toLower c = (let n = (of_char c :: nat) in if 65 \<le> n \<and> n \<le> 90 then char_of (n + 32) else c)"

function replaceSpaces :: "string \<Rightarrow> string" where
  "replaceSpaces [] = []"
| "replaceSpaces (c # cs) =
     (if isWhite c then CHR ''-'' # replaceSpaces (dropWhile isWhite cs) else c # replaceSpaces cs)"
  by pat_completeness auto
termination
  by (relation "measure length") (auto simp: less_Suc_eq_le length_dropWhile_le)

definition makeOneWord :: "string \<Rightarrow> string" where
  "makeOneWord s = replaceSpaces (map toLower s)"

text \<open>\<^verbatim>\<open>Object.keys\<close> of a record: the keys it has, in the order in which lines 179 to 207
  created them.\<close>

definition keysOf :: "thread \<Rightarrow> string list" where
  "keysOf th =
     (if ID th = None then [] else [''ID'']) @
     [''Address'', ''Task Name'', ''Status'', ''Prio'', ''Stack Beg'', ''Stack Top'',
      ''Stack Used'', ''stackInfo''] @
     (if StackEnd th = None then [] else [''Stack End'']) @
     (if StackSize th = None then [] else [''Stack Size'']) @
     (if StackPeak th = None then [] else [''Stack Peak'']) @
     (if StackFree th = None then [] else [''Stack Free'']) @
     (if Runtime th = None then [] else [''Runtime''])"

datatype cell = Txt string | Undefined | Object

fun optCell :: "string option \<Rightarrow> cell" where
  "optCell (Some v) = Txt v"
| "optCell None = Undefined"

definition field :: "thread \<Rightarrow> string \<Rightarrow> cell" where
  "field th key =
     (if key = ''ID'' then optCell (ID th)
      else if key = ''Address'' then Txt (Address th)
      else if key = ''Task Name'' then Txt (TaskName th)
      else if key = ''Status'' then Txt (Status th)
      else if key = ''Prio'' then optCell (Prio th)
      else if key = ''Stack Beg'' then Txt (StackBeg th)
      else if key = ''Stack Top'' then Txt (StackTop th)
      else if key = ''Stack Used'' then Txt (StackUsed th)
      else if key = ''stackInfo'' then Object
      else if key = ''Stack End'' then optCell (StackEnd th)
      else if key = ''Stack Size'' then optCell (StackSize th)
      else if key = ''Stack Peak'' then optCell (StackPeak th)
      else if key = ''Stack Free'' then optCell (StackFree th)
      else if key = ''Runtime'' then optCell (Runtime th)
      else Undefined)"

fun cellText :: "cell \<Rightarrow> string" where
  "cellText (Txt v) = v"
| "cellText Undefined = ''undefined''"
| "cellText Object = ''[object Object]''"

definition columnWidth :: "string \<Rightarrow> nat" where
  "columnWidth k =
     (if k = ''ID'' then 1 else if k = ''Task Name'' then 6 else if k = ''Prio'' then 2
      else if k = ''Runtime'' then 2 else 4)"

fun headerCells :: "string list \<Rightarrow> thread \<Rightarrow> nat \<Rightarrow> string" where
  "headerCells [] th col = []"
| "headerCells (key # keys) th col =
     (if field th key = Object then headerCells keys th col
      else ''    <vscode-data-grid-cell class='' @ dq @ rtosName @ ''-header-cell threads-header-cell'' @ dq @
           '' cell-type='' @ dq @ ''columnheader'' @ dq @ '' grid-column='' @ dq @ dec (int col) @ dq @ ''>'' @
           key @ ''</vscode-data-grid-cell>'' @ nl @ headerCells keys th (col + 1))"

fun rowCells :: "string list \<Rightarrow> thread \<Rightarrow> nat \<Rightarrow> string" where
  "rowCells [] th col = []"
| "rowCells (key # keys) th col =
     (let v = field th key in
      if v = Object then rowCells keys th col
      else
        (let special = (if key = ''Status'' \<and> v = Txt ''RUNNING'' then ''running'' else []);
             txt = (if key = ''Stack Beg''
                    then ''<vscode-link class='' @ dq @ ''threads-link-'' @ makeOneWord key @ dq @
                         '' href='' @ dq @ ''#'' @ dq @ ''>'' @ cellText v @ ''</vscode-link>''
                    else cellText v);
             cls = ''class='' @ dq @ rtosName @ ''-cell threads-cell threads-cell-'' @ makeOneWord key @
                   '' '' @ special @ dq
         in ''    <vscode-data-grid-cell '' @ cls @ '' grid-column='' @ dq @ dec (int col) @ dq @ ''>'' @ txt @
            ''</vscode-data-grid-cell>'' @ nl @ rowCells keys th (col + 1)))"

definition headerRow :: "string list \<Rightarrow> thread \<Rightarrow> string" where
  "headerRow keys th =
     ''  <vscode-data-grid-row row-type='' @ dq @ ''header'' @ dq @ '' class='' @ dq @ rtosName @
     ''-header-row threads-header-row'' @ dq @ ''>'' @ nl @ headerCells keys th 1 @
     ''  </vscode-data-grid-row>'' @ nl"

definition dataRow :: "string list \<Rightarrow> thread \<Rightarrow> string" where
  "dataRow keys th =
     ''  <vscode-data-grid-row class='' @ dq @ rtosName @ ''-row threads-row'' @ dq @ ''>'' @ nl @
     rowCells keys th 1 @ ''  </vscode-data-grid-row>'' @ nl"

text \<open>
  Lines 296 to 354. \<^verbatim>\<open>Object.keys(this.finalThreads[0])\<close> throws a \<^verbatim>\<open>TypeError\<close> when the
  list is empty. The header is built in the first turn of the loop over the threads,
  from the first thread, and never again.
\<close>

definition renderGrid :: "string \<Rightarrow> rtos \<Rightarrow> (exn + string) \<times> rtos" where
  "renderGrid ret0 s =
     (case finalThreads s of
        [] \<Rightarrow> (Inl TypeError, s)
      | th0 # ths \<Rightarrow>
          (let keys = keysOf th0;
               fmt = concat (map (\<lambda>k. dec (int (columnWidth k)) @ ''fr '') keys);
               table = ''<vscode-data-grid class='' @ dq @ rtosName @ ''-grid threads-grid'' @ dq @
                       '' grid-template-columns='' @ dq @ fmt @ dq @ ''>'' @ nl @
                       headerRow keys th0 @ concat (map (dataRow keys) (finalThreads s));
               ret = ret0 @ table @ ''</vscode-data-grid>'' @ nl @
                     (if timeInfo s \<noteq> [] then ''<p>Data collected at '' @ timeInfo s @ ''</p>'' @ nl
                      else [])
           in (Inr ret, s\<lparr>lastValidHtml := ret\<rparr>)))"

text \<open>Lines 273 to 295: the messages, and which states go on to the grid.\<close>

definition getHTML :: "rtos \<Rightarrow> (exn + string) \<times> rtos" where
  "getHTML s =
     (let n = uxCurrentNumberOfTasksVal s in
      if status s = StatusNone
      then (Inr (''<p>RTOS not yet fully initialized. Will occur next time program pauses</p>'' @ nl), s)
      else if stale s then
        (if js_eq (to_number n) (Num MAX_SAFE_INTEGER)
         then (Inr (''<p>Unable to collect full RTOS information. '' @ ''Count not read '' @ dq @
                    ''uxCurrentNumberOfTasks'' @ dq @
                    ''. Perhaps program is busy or did not stop long enough'' @ ''</p>'' @ nl), s)
         else if js_lt (Num maxThreads) (to_number n)
         then (Inr (''<p>Unable to collect full RTOS information. '' @
                    ''FreeRTOS variable uxCurrentNumberOfTasks = '' @ numo_toString n @
                    '' seems invalid'' @ ''</p>'' @ nl), s)
         else if lastValidHtml s \<noteq> []
         then (Inr (''<p>Unable to collect full RTOS information. '' @
                    '' Following info from last query may be stale.'' @ ''</p>'' @ nl @ lastValidHtml s), s)
         else (Inr (''<p>Unable to collect full RTOS information. '' @ ''</p>'' @ nl @ lastValidHtml s), s))
      else if \<not> js_eq (to_number n) (Num MAX_SAFE_INTEGER) \<and>
              \<not> js_eq (Num (int (length (finalThreads s)))) (to_number n)
      then renderGrid (''<p>Expecting '' @ numo_toString n @ '' threads, found '' @
                       dec (int (length (finalThreads s))) @ ''. Thread data may be unreliable<p>'' @ nl) s
      else if finalThreads s = []
      then (Inr (''<p>No '' @ rtosName @
                 '' threads detected, perhaps RTOS not yet initialized or tasks yet to be created!</p>'' @ nl), s)
      else renderGrid [] s)"

section \<open>A sample target\<close>

text \<open>
  Concrete collaborators and a concrete view, on which the theorems below are
  exercised. \<open>hexFormat0\<close> writes a number in hexadecimal behind \<^verbatim>\<open>0x\<close>, padded with zeros
  to the given width, eight by default. The sample session answers every request the
  same way at every time: the count and the run-time total are strings, the list
  \<^verbatim>\<open>xDelayedTaskList1\<close> declares \<open>items\<close> nodes and every other list none, every node of a
  list names the task at \<^verbatim>\<open>0x20000100\<close> and links back to reference 11, which is also
  the reference of the list end (so the links form a cycle), every task control block is
  \<open>tcb\<close>, and every read of memory is answered with \<open>mem\<close>.
\<close>

function hex :: "int \<Rightarrow> string" where
  "hex n = (if n < 16 then [''0123456789abcdef'' ! nat n]
            else hex (n div 16) @ [''0123456789abcdef'' ! nat (n mod 16)])"
  by pat_completeness auto
termination
  by (relation "measure nat") auto

declare hex.simps [simp del]

definition hexFormat0 :: "jsnum \<Rightarrow> nat option \<Rightarrow> string" where
  "hexFormat0 x pad =
     ''0x'' @ padStart (case pad of Some p \<Rightarrow> p | None \<Rightarrow> 8) (CHR ''0'')
               (case x of NaN \<Rightarrow> ''NaN'' | Num n \<Rightarrow> (if n < 0 then ''-'' else []) @ hex \<bar>n\<bar>)"

definition helper :: "string \<Rightarrow> nat \<Rightarrow> varhelper" where
  "helper e r = \<lparr>expression = e, varReference = Some r\<rparr>"

definition listObj :: "string \<Rightarrow> nat \<Rightarrow> obj" where
  "listObj cnt r = \<lparr>vals = [''uxNumberOfItems'' \<mapsto> cnt], refs = [''xListEnd'' \<mapsto> r], exps = Map.empty\<rparr>"

definition nodeObj :: "string \<Rightarrow> nat \<Rightarrow> obj" where
  "nodeObj owner prev = \<lparr>vals = [''pvOwner'' \<mapsto> owner], refs = [''pxPrevious'' \<mapsto> prev], exps = Map.empty\<rparr>"

definition tcbObj :: "(string \<times> string) list \<Rightarrow> obj" where
  "tcbObj kvs = \<lparr>vals = map_of kvs, refs = Map.empty, exps = [''pcTaskName'' \<mapsto> ''name'']\<rparr>"

definition sampleEnv :: "string option \<Rightarrow> string \<Rightarrow> obj \<Rightarrow> exn + 8 word list option \<Rightarrow> progstatus \<Rightarrow> env" where
  "sampleEnv cnt items tcb mem ps =
     \<lparr>progStatus = (\<lambda>t. ps),
      getValue = (\<lambda>t h. Inr (if expression h = ''uxCurrentNumberOfTasks'' then cnt
                             else if expression h = ''ulTotalRunTime'' then Some ''1000''
                             else Some ''0x20000100'')),
      getVarChildren = (\<lambda>t h. Inr []),
      getVarIfEmpty = (\<lambda>t n. Inr None),
      varGetVarChildrenObj = (\<lambda>t h. Inr (listObj (if expression h = ''xDelayedTaskList1'' then items
                                                    else ''0'') 11)),
      getVarChildrenObj = (\<lambda>t r n. Inr (nodeObj ''0x20000100'' 11)),
      getExprValChildrenObj = (\<lambda>t e. Inr tcb),
      getExprVal = (\<lambda>t e. Inr (Some (''0x20000134 '' @ [CHR 0x22] @ ''IDLE'' @ [CHR 0x22]))),
      readMemory = (\<lambda>t r n. mem),
      hexFormat = hexFormat0,
      toISOString = ''2024-01-01T00:00:00.000Z'',
      deltaMs = ''3''\<rparr>"

text \<open>Two task control blocks: one with a static end of stack, a task number and a
  run-time counter of its own, and one that has only the two stack pointers.\<close>

definition tcbFull :: obj where
  "tcbFull = tcbObj [(''uxTCBNumber'', ''2''), (''uxPriority'', ''1''), (''pxStack'', ''0x2000''),
                     (''pxTopOfStack'', ''0x1800''), (''pxEndOfStack'', ''0x1000''),
                     (''ulRunTimeCounter'', ''250'')]"

definition tcbIdle :: obj where
  "tcbIdle = tcbObj [(''uxTCBNumber'', ''1''), (''uxPriority'', ''0''), (''pxStack'', ''0x2000''),
                     (''pxTopOfStack'', ''0x1800''), (''pxEndOfStack'', ''0x1000''),
                     (''ulRunTimeCounter'', ''0'')]"

definition tcbPlain :: obj where
  "tcbPlain = tcbObj [(''uxPriority'', ''1''), (''pxStack'', ''0x2000''), (''pxTopOfStack'', ''0x1800'')]"

text \<open>A region of 4096 bytes as the debugger returns it for \<open>tcbFull\<close>, lowest address
  first: the 100 bytes next to \<^verbatim>\<open>pxEndOfStack\<close> still hold the fill byte, the one after
  them does not.\<close>

definition stackBytes :: "8 word list" where
  "stackBytes = replicate 100 0xA5 @ 0x00 # replicate 3995 0x11"

definition sampleThread :: "string option \<Rightarrow> string \<Rightarrow> thread" where
  "sampleThread i a =
     \<lparr>ID = i, Address = a, TaskName = ''task'', Status = ''READY'', Prio = Some ''1'',
      StackBeg = ''0x00002000'', StackTop = ''0x00001800'', StackUsed = ''2048'',
      StackEnd = Some ''&lt;Unknown&gt;'', StackSize = None, StackPeak = None, StackFree = None,
      Runtime = None,
      stackInfo = \<lparr>stackStart = Num 8192, stackTopCurrent = Num 6144, stackCurUsed = Num 2048,
                   stackEnd = None, stackSize = None, stackFree = None, stackPeakUsed = None,
                   bytes = None\<rparr>\<rparr>"

text \<open>The view after an earlier pass that published two tasks.\<close>

definition rtos0 :: rtos where
  "rtos0 =
     \<lparr>status = Initialized,
      uxCurrentNumberOfTasks = helper ''uxCurrentNumberOfTasks'' 0,
      uxCurrentNumberOfTasksVal = Some (Num 2),
      pxReadyTasksLists = helper ''pxReadyTasksLists'' 1,
      pxReadyTasksListsItems = Some [],
      xDelayedTaskList1 = Some (helper ''xDelayedTaskList1'' 2),
      xDelayedTaskList2 = Some (helper ''xDelayedTaskList2'' 3),
      xPendingReadyList = Some (helper ''xPendingReadyList'' 4),
      pxCurrentTCB = helper ''pxCurrentTCB'' 0,
      xSuspendedTaskList = None,
      xTasksWaitingTermination = None,
      ulTotalRunTime = Some (helper ''ulTotalRunTime'' 0),
      ulTotalRunTimeVal = Some (Num 1000),
      stale = False,
      curThreadAddr = Some (Num 536871168),
      foundThreads = [],
      finalThreads = [sampleThread (Some ''1'') ''0x20000100'', sampleThread (Some ''2'') ''0x20000200''],
      timeInfo = ''2023-12-31T23:59:59.000Z in 2 ms'',
      lastValidHtml = ''<p>earlier</p>'',
      requests = [],
      console = []\<rparr>"

section \<open>Observations used in the statements\<close>

text \<open>The integer behind a number that is not \<^verbatim>\<open>NaN\<close>.\<close>

fun num_val :: "jsnum \<Rightarrow> int" where
  "num_val (Num n) = n"
| "num_val NaN = 0"

text \<open>The key by which line 126 or line 128 compares the records of a found list: the
  choice looks at the first record only.\<close>

definition sortKey :: "thread list \<Rightarrow> thread \<Rightarrow> jsnum" where
  "sortKey found t = (if truthy_str (ID (hd found)) then parseInto (ID t) else parseInt (Address t))"

text \<open>A visit of a list node is the request for the children of \<^verbatim>\<open>curRef\<close> in line 171.\<close>

fun isNodeVisit :: "request \<Rightarrow> bool" where
  "isNodeVisit (ReqChildrenObj r n) = (n = ''pxPrevious'')"
| "isNodeVisit _ = False"

definition nodeVisits :: "rtos \<Rightarrow> nat" where
  "nodeVisits s = length (filter isNodeVisit (requests s))"

text \<open>How the pass that \<^verbatim>\<open>refresh\<close> starts in a state ends: the rejection of the first
  request counts as an exception of the pass.\<close>

definition passOutcome :: "env \<Rightarrow> rtos \<Rightarrow> unit res" where
  "passOutcome E s =
     (case getValue E (now s) (uxCurrentNumberOfTasks s) of
        Inl e \<Rightarrow> Throw e
      | Inr str \<Rightarrow> fst (refreshBody E str (issue (ReqGetValue (uxCurrentNumberOfTasks s)) (beginPass E s))))"

text \<open>The state in which the traversal of a pass starts, once the count \<open>str\<close> is read.\<close>

definition countRead :: "env \<Rightarrow> string option \<Rightarrow> rtos \<Rightarrow> rtos" where
  "countRead E str s = setCount str (issue (ReqGetValue (uxCurrentNumberOfTasks s)) (beginPass E s))"

text \<open>What a reader of the view sees of a published snapshot: the list, the stale flag, the
  HTML kept from the last rendering, and the detection status.\<close>

definition view :: "rtos \<Rightarrow> thread list \<times> bool \<times> string \<times> rtosstatus" where
  "view s = (finalThreads s, stale s, lastValidHtml s, status s)"

text \<open>A step of a pass is quiet when it leaves the view alone and, if its promise never settles,
  the last line on the console is the \<^verbatim>\<open>read thread info error\<close> of line 214.\<close>

definition quiet :: "rtos \<Rightarrow> 'a res \<times> rtos \<Rightarrow> bool" where
  "quiet s m = (view (snd m) = view s \<and>
     (fst m = Hang \<longrightarrow> console (snd m) \<noteq> [] \<and> (\<exists>e. last (console (snd m)) = ThreadInfoError e)))"



section \<open>Stack analysis\<close>

lemma scanTop_trailing:
  "t \<le> length bs \<Longrightarrow> scanTop bs wm t = t - length (takeWhile (\<lambda>b. b = wm) (rev (take t bs)))"
proof (induction t)
  case 0
  then show ?case by simp
next
  case (Suc t)
  then have "take (Suc t) bs = take t bs @ [bs ! t]"
    by (simp add: take_Suc_conv_app_nth)
  with Suc show ?case by auto
qed

lemma tcbFull_fields:
  "truthy_str (vals tcbFull ''pxEndOfStack'')"
  "parseInto (vals tcbFull ''pxStack'') = Num 8192"
  "parseInto (vals tcbFull ''pxTopOfStack'') = Num 6144"
  "parseInto (vals tcbFull ''pxEndOfStack'') = Num 4096"
  by code_simp+

text \<open>
  Claim C7. When the task control block has a static end of stack (a non-empty
  \<^verbatim>\<open>pxEndOfStack-val\<close>) and its three stack pointers parse to the integers \<open>a\<close> (start),
  \<open>t\<close> (current top) and \<open>e\<close> (end), \<^verbatim>\<open>getStackInfo\<close> returns a stack info with
  \<open>stackCurUsed = |a - t|\<close>, \<open>stackSize = |a - e|\<close> and \<open>stackFree = stackSize - stackCurUsed\<close>,
  whatever the read of the stack memory answers.
\<close>

theorem getStackInfo_static_bound:
  assumes "truthy_str (vals thInfo ''pxEndOfStack'')"
    and "parseInto (vals thInfo ''pxStack'') = Num a"
    and "parseInto (vals thInfo ''pxTopOfStack'') = Num t"
    and "parseInto (vals thInfo ''pxEndOfStack'') = Num e"
  shows "\<exists>si. fst (getStackInfo E thInfo wm s) = Ok si \<and> stackCurUsed si = Num \<bar>a - t\<bar> \<and>
           stackSize si = Some (Num \<bar>a - e\<bar>) \<and> stackFree si = Some (Num (\<bar>a - e\<bar> - \<bar>a - t\<bar>))"
  using assms by (simp add: getStackInfo_def Let_def split: sum.splits option.splits)

text \<open>The instance of the claim: start \<^verbatim>\<open>0x2000\<close>, end \<^verbatim>\<open>0x1000\<close>, top \<^verbatim>\<open>0x1800\<close> give size 4096, 2048
  bytes in use and 2048 free.\<close>

theorem getStackInfo_static_bound_witness:
  "truthy_str (vals tcbFull ''pxEndOfStack'') \<and>
   parseInto (vals tcbFull ''pxStack'') = Num 0x2000 \<and>
   parseInto (vals tcbFull ''pxTopOfStack'') = Num 0x1800 \<and>
   parseInto (vals tcbFull ''pxEndOfStack'') = Num 0x1000 \<and>
   (\<exists>si. fst (getStackInfo (sampleEnv (Some ''2'') ''2'' tcbFull (Inl (Rejected ''no memory'')) Stopped)
                 tcbFull 0xA5 rtos0) = Ok si \<and>
         stackCurUsed si = Num 2048 \<and> stackSize si = Some (Num 4096) \<and> stackFree si = Some (Num 2048))"
  using getStackInfo_static_bound [OF tcbFull_fields,
      of "sampleEnv (Some ''2'') ''2'' tcbFull (Inl (Rejected ''no memory'')) Stopped" "0xA5" rtos0]
    tcbFull_fields
  by simp

text \<open>
  Claim C8. With a static end of stack and a read of the stack memory that returns the
  bytes \<open>buf\<close>, the region kept in the stack info is \<open>buf\<close> itself when
  \<open>stackStart - stackEnd\<close> is negative and \<open>buf\<close> reversed otherwise, and \<open>stackPeakUsed\<close> is
  the length of that region minus the number of bytes at its end that still hold the
  fill byte.
\<close>

theorem getStackInfo_peak:
  assumes "truthy_str (vals thInfo ''pxEndOfStack'')"
    and "start = parseInto (vals thInfo ''pxStack'')"
    and "stkEnd = parseInto (vals thInfo ''pxEndOfStack'')"
    and "readMemory E (now s)
           (if js_lt (js_sub start stkEnd) (Num 0) then hexFormat E start (Some 8)
            else hexFormat E stkEnd (Some 8))
           (js_abs (js_sub start stkEnd)) = Inr (Some buf)"
    and "region = (if js_lt (js_sub start stkEnd) (Num 0) then buf else rev buf)"
  shows "\<exists>si. fst (getStackInfo E thInfo wm s) = Ok si \<and> bytes si = Some region \<and>
           stackPeakUsed si =
             Some (length region - length (takeWhile (\<lambda>b. b = wm) (rev region)))"
proof (cases "js_lt (js_sub start stkEnd) (Num 0)")
  case True
  with assms show ?thesis
    by (simp add: getStackInfo_def Let_def scanTop_trailing)
next
  case False
  with assms show ?thesis
    by (simp add: getStackInfo_def Let_def scanTop_trailing)
qed

lemma stackBytes_fill:
  "length stackBytes = 4096"
  "takeWhile (\<lambda>b. b = 0xA5) stackBytes = replicate 100 (0xA5 :: 8 word)"
  by (simp_all add: stackBytes_def takeWhile_append)

text \<open>The instance of the claim: 4096 bytes, of which the last 100 at the far end hold
  \<^verbatim>\<open>0xA5\<close> and the next one does not, give a peak of 3996.\<close>

theorem getStackInfo_peak_witness:
  "truthy_str (vals tcbFull ''pxEndOfStack'') \<and>
   length (rev stackBytes) = 4096 \<and>
   (\<exists>si. fst (getStackInfo (sampleEnv (Some ''2'') ''2'' tcbFull (Inr (Some stackBytes)) Stopped)
                 tcbFull 0xA5 rtos0) = Ok si \<and>
         bytes si = Some (rev stackBytes) \<and> stackPeakUsed si = Some 3996)"
proof -
  let ?E = "sampleEnv (Some ''2'') ''2'' tcbFull (Inr (Some stackBytes)) Stopped"
  have rd: "readMemory ?E (now rtos0)
              (if js_lt (js_sub (Num 8192) (Num 4096)) (Num 0) then hexFormat ?E (Num 8192) (Some 8)
               else hexFormat ?E (Num 4096) (Some 8))
              (js_abs (js_sub (Num 8192) (Num 4096))) = Inr (Some stackBytes)"
    by (simp add: sampleEnv_def)
  have rg: "rev stackBytes = (if js_lt (js_sub (Num 8192) (Num 4096)) (Num 0) then stackBytes
                              else rev stackBytes)"
    by simp
  show ?thesis
    using getStackInfo_peak [OF tcbFull_fields(1) tcbFull_fields(2) [symmetric]
        tcbFull_fields(4) [symmetric] rd rg, of "0xA5"]
      tcbFull_fields(1) stackBytes_fill
    by simp
qed

section \<open>The run-time column\<close>

lemma Runtime_mkThread:
  "Runtime (mkThread E s thInfo threadId thName state si) =
     runtimeField (vals thInfo ''ulRunTimeCounter'') (ulTotalRunTimeVal s)"
  by (simp add: mkThread_def Let_def)

lemma truthy_str_iff: "truthy_str v = (\<exists>c. v = Some c \<and> c \<noteq> [])"
  by (cases v) auto

lemma truthy_numo_iff: "truthy_numo v = (\<exists>n. v = Some (Num n) \<and> n \<noteq> 0)"
proof (cases v)
  case None
  then show ?thesis by simp
next
  case (Some x)
  then show ?thesis by (cases x) auto
qed

lemma runtime_250: "runtimeField (Some ''250'') (Some (Num 1000)) = Some ''25.00%''"
  by code_simp

text \<open>
  Claim C4, as the code has it. The record of a task has a \<^verbatim>\<open>Runtime\<close> entry exactly when
  the task's \<^verbatim>\<open>ulRunTimeCounter-val\<close> is a non-empty string and the total run time read in
  this pass is a number other than 0; a counter that reads \<^verbatim>\<open>"0"\<close> is a non-empty string.
  The entry is then the quotient of the two, times 100, with two decimals, padded with
  zeros to five characters and followed by a percent sign; 250 of 1000 gives \<^verbatim>\<open>25.00%\<close>.
\<close>

theorem runtime_field_presence:
  "(Runtime (mkThread E s thInfo threadId thName state si) \<noteq> None) =
     ((\<exists>c. vals thInfo ''ulRunTimeCounter'' = Some c \<and> c \<noteq> []) \<and>
      (\<exists>n. ulTotalRunTimeVal s = Some (Num n) \<and> n \<noteq> 0)) \<and>
   (\<forall>c n. vals thInfo ''ulRunTimeCounter'' = Some c \<and> c \<noteq> [] \<and>
          ulTotalRunTimeVal s = Some (Num n) \<and> n \<noteq> 0 \<longrightarrow>
      Runtime (mkThread E s thInfo threadId thName state si) =
        Some (padStart 5 (CHR ''0'') (toFixed2 (js_mul (js_div (parseInt c) (Num n)) 100)) @ ''%'')) \<and>
   (vals thInfo ''ulRunTimeCounter'' = Some ''250'' \<and> ulTotalRunTimeVal s = Some (Num 1000) \<longrightarrow>
      Runtime (mkThread E s thInfo threadId thName state si) = Some ''25.00%'')"
proof (intro conjI allI impI)
  show "(Runtime (mkThread E s thInfo threadId thName state si) \<noteq> None) =
     ((\<exists>c. vals thInfo ''ulRunTimeCounter'' = Some c \<and> c \<noteq> []) \<and>
      (\<exists>n. ulTotalRunTimeVal s = Some (Num n) \<and> n \<noteq> 0))"
    unfolding Runtime_mkThread runtimeField_def truthy_str_iff truthy_numo_iff by auto
next
  fix c n
  assume "vals thInfo ''ulRunTimeCounter'' = Some c \<and> c \<noteq> [] \<and>
          ulTotalRunTimeVal s = Some (Num n) \<and> n \<noteq> 0"
  then show "Runtime (mkThread E s thInfo threadId thName state si) =
        Some (padStart 5 (CHR ''0'') (toFixed2 (js_mul (js_div (parseInt c) (Num n)) 100)) @ ''%'')"
    by (simp add: Runtime_mkThread runtimeField_def parseInto_def)
next
  assume "vals thInfo ''ulRunTimeCounter'' = Some ''250'' \<and> ulTotalRunTimeVal s = Some (Num 1000)"
  then show "Runtime (mkThread E s thInfo threadId thName state si) = Some ''25.00%''"
    by (simp add: Runtime_mkThread runtime_250)
qed

lemma tcbFull_counter: "vals tcbFull ''ulRunTimeCounter'' = Some ''250''"
  by code_simp

lemma tcbIdle_counter: "vals tcbIdle ''ulRunTimeCounter'' = Some ''0''"
  by code_simp

lemma rtos0_total: "ulTotalRunTimeVal rtos0 = Some (Num 1000)"
  by (simp add: rtos0_def)

theorem runtime_field_presence_witness:
  "vals tcbFull ''ulRunTimeCounter'' = Some ''250'' \<and> ulTotalRunTimeVal rtos0 = Some (Num 1000) \<and>
   Runtime (mkThread (sampleEnv (Some ''2'') ''2'' tcbFull (Inr None) Stopped) rtos0 tcbFull
              (Num 536871168) ''IDLE'' ''READY'' (stackInfo (sampleThread None ''0x20000100'')))
     = Some ''25.00%''"
  using runtime_field_presence [of "sampleEnv (Some ''2'') ''2'' tcbFull (Inr None) Stopped" rtos0 tcbFull
      "Num 536871168" "''IDLE''" "''READY''" "stackInfo (sampleThread None ''0x20000100'')",
      THEN conjunct2, THEN conjunct2]
    tcbFull_counter rtos0_total
  by blast

text \<open>Against claim C4 as stated: a task whose counter reads \<^verbatim>\<open>0\<close> has a \<^verbatim>\<open>Runtime\<close> entry.\<close>

theorem runtime_zero_counter_counterexample:
  "vals tcbIdle ''ulRunTimeCounter'' = Some ''0'' \<and> parseInt ''0'' = Num 0 \<and>
   Runtime (mkThread (sampleEnv (Some ''2'') ''2'' tcbIdle (Inr None) Stopped) rtos0 tcbIdle
              (Num 536871168) ''IDLE'' ''READY'' (stackInfo (sampleThread None ''0x20000100'')))
     = Some ''00.00%''"
proof -
  have "runtimeField (Some ''0'') (Some (Num 1000)) = Some ''00.00%''"
    by code_simp
  moreover have "parseInt ''0'' = Num 0"
    by code_simp
  ultimately show ?thesis
    by (simp add: Runtime_mkThread tcbIdle_counter rtos0_total)
qed

section \<open>Traversal of one list\<close>

lemma andThenE:
  assumes "andThen m f = (r, s')"
  obtains (ok) x s1 where "m = (Ok x, s1)" "f x s1 = (r, s')"
    | (throw) e where "m = (Throw e, s')" "r = Throw e"
    | (hang) "m = (Hang, s')" "r = Hang"
  using assms by (auto simp: andThen_def split: prod.splits res.splits)

lemma requestE:
  assumes "request q a s = (r, s')"
  obtains (ok) x where "a = Inr x" "r = Ok x" "s' = issue q s"
    | (throw) e where "a = Inl e" "r = Throw e" "s' = issue q s"
  using assms by (auto simp: request_def split: sum.splits)

lemma view_issue [simp]: "view (issue q s) = view s"
  by (simp add: view_def issue_def)

lemma view_logEntry [simp]: "view (logEntry l s) = view s"
  by (simp add: view_def logEntry_def)

lemma nodeVisits_issue [simp]:
  "nodeVisits (issue q s) = nodeVisits s + (if isNodeVisit q then 1 else 0)"
  by (simp add: nodeVisits_def issue_def)

lemma nodeVisits_logEntry [simp]: "nodeVisits (logEntry l s) = nodeVisits s"
  by (simp add: nodeVisits_def logEntry_def)

lemma found_issue [simp]: "foundThreads (issue q s) = foundThreads s"
  by (simp add: issue_def)

lemma found_logEntry [simp]: "foundThreads (logEntry l s) = foundThreads s"
  by (simp add: logEntry_def)

lemma console_issue [simp]: "console (issue q s) = console s"
  by (simp add: issue_def)

lemma console_logEntry [simp]: "console (logEntry l s) = console s @ [l]"
  by (simp add: logEntry_def)

lemma now_issue [simp]: "now (issue q s) = Suc (now s)"
  by (simp add: now_def issue_def)

lemma getStackInfo_frame:
  assumes "getStackInfo E thInfo wm s = (r, s')"
  shows "view s' = view s" "foundThreads s' = foundThreads s" "nodeVisits s' = nodeVisits s"
    "r \<noteq> Hang"
  using assms
  by (auto simp: getStackInfo_def Let_def split: if_splits sum.splits option.splits)


lemma view_found_update [simp]: "view (s\<lparr>foundThreads := x\<rparr>) = view s"
  by (simp add: view_def)

lemma nodeVisits_found_update [simp]: "nodeVisits (s\<lparr>foundThreads := x\<rparr>) = nodeVisits s"
  by (simp add: nodeVisits_def)

lemma request_frame:
  assumes "request q a s = (r, s')"
  shows "view s' = view s" "foundThreads s' = foundThreads s" "console s' = console s"
    "nodeVisits s' = nodeVisits s + (if isNodeVisit q then 1 else 0)" "r \<noteq> Hang"
  using assms by (auto elim!: requestE)

lemma visitNode_frame:
  assumes "visitNode E state cur s = (r, s')"
  shows "view s' = view s \<and> nodeVisits s' = Suc (nodeVisits s) \<and> r \<noteq> Hang \<and>
         (\<exists>ths. foundThreads s' = foundThreads s @ ths \<and>
                length ths = (case r of Ok x \<Rightarrow> 1 | Throw e \<Rightarrow> 0 | Hang \<Rightarrow> 0))"
  using assms unfolding visitNode_def Let_def
proof (cases rule: andThenE)
  case (ok element s1)
  note p1 = request_frame [OF ok(1)]
  from ok(2) show ?thesis
  proof (cases rule: andThenE)
    case (ok thInfo s2)
    note p2 = request_frame [OF ok(1)]
    from ok(2) show ?thesis
    proof (cases rule: andThenE)
      case (ok tmpThName s3)
      note p3 = request_frame [OF ok(1)]
      show ?thesis
      proof (cases tmpThName)
        case None
        with ok(2) have "r = Throw TypeError" "s' = s3" by simp_all
        with p1 p2 p3 show ?thesis by simp
      next
        case (Some nm)
        with ok(2) have "andThen (getStackInfo E thInfo 0xA5 s3)
            (\<lambda>si s4. (Ok (refs element ''pxPrevious''),
                s4\<lparr>foundThreads := foundThreads s4 @
                   [mkThread E s4 thInfo (parseInto (vals element ''pvOwner''))
                      (case matchName nm of Some m \<Rightarrow> m | None \<Rightarrow> nm) state si]\<rparr>)) = (r, s')"
          by simp
        then show ?thesis
        proof (cases rule: andThenE)
          case (ok si s4)
          note p4 = getStackInfo_frame [OF ok(1)]
          from ok(2) have "r = Ok (refs element ''pxPrevious'')"
            "s' = s4\<lparr>foundThreads := foundThreads s4 @
                   [mkThread E s4 thInfo (parseInto (vals element ''pvOwner''))
                      (case matchName nm of Some m \<Rightarrow> m | None \<Rightarrow> nm) state si]\<rparr>"
            by simp_all
          with p1 p2 p3 p4 show ?thesis by simp
        next
          case (throw e)
          note p4 = getStackInfo_frame [OF throw(1)]
          with p1 p2 p3 throw(2) show ?thesis by simp
        next
          case hang
          from getStackInfo_frame(4) [OF hang(1)] show ?thesis by simp
        qed
      qed
    next
      case (throw e)
      note p3 = request_frame [OF throw(1)]
      with p1 p2 throw(2) show ?thesis by simp
    next
      case hang
      from request_frame(5) [OF hang(1)] show ?thesis by simp
    qed
  next
    case (throw e)
    note p2 = request_frame [OF throw(1)]
    with p1 throw(2) show ?thesis by simp
  next
    case hang
    from request_frame(5) [OF hang(1)] show ?thesis by simp
  qed
next
  case (throw e)
  note p1 = request_frame [OF throw(1)]
  with throw(2) show ?thesis by simp
next
  case hang
  from request_frame(5) [OF hang(1)] show ?thesis by simp
qed


lemma walkList_bound:
  assumes "walkList E state (Num n) i cur s = (r, s')"
  shows "view s' = view s \<and> r \<noteq> Hang \<and>
         nodeVisits s' \<le> nodeVisits s + nat (n - i) \<and>
         (\<exists>ths. foundThreads s' = foundThreads s @ ths \<and> length ths \<le> nat (n - i) \<and>
                (r = Ok () \<longrightarrow> length ths = nat (n - i))) \<and>
         (r = Ok () \<longrightarrow> nodeVisits s' = nodeVisits s + nat (n - i))"
  using assms
proof (induction "nat (n - i)" arbitrary: i cur s)
  case 0
  then have "\<not> i < n" by simp
  with "0.prems" have "r = Ok ()" "s' = s"
    by (simp_all add: walkList.simps)
  with 0 show ?case by simp
next
  case (Suc k)
  then have lt: "i < n" by linarith
  obtain rv s1 where v: "visitNode E state cur s = (rv, s1)"
    by (cases "visitNode E state cur s") auto
  from visitNode_frame [OF v] obtain ths1 where
    f: "view s1 = view s" "nodeVisits s1 = Suc (nodeVisits s)" "rv \<noteq> Hang"
      "foundThreads s1 = foundThreads s @ ths1"
      "length ths1 = (case rv of Ok x \<Rightarrow> 1 | Throw e \<Rightarrow> 0 | Hang \<Rightarrow> 0)"
    by blast
  show ?case
  proof (cases rv)
    case (Ok nxt)
    with v lt Suc.prems have w: "walkList E state (Num n) (i + 1) nxt s1 = (r, s')"
      by (simp add: walkList.simps [of E state "Num n" i])
    have k: "k = nat (n - (i + 1))"
      using Suc.hyps(2) by linarith
    from Suc.hyps(1) [OF k w] obtain ths2 where
      g: "view s' = view s1" "r \<noteq> Hang" "nodeVisits s' \<le> nodeVisits s1 + k"
        "foundThreads s' = foundThreads s1 @ ths2" "length ths2 \<le> k"
        "r = Ok () \<longrightarrow> length ths2 = k" "r = Ok () \<longrightarrow> nodeVisits s' = nodeVisits s1 + k"
      using k by auto
    have len1: "length ths1 = 1"
      using f(5) Ok by simp
    have "foundThreads s' = foundThreads s @ (ths1 @ ths2)"
      using f(4) g(4) by simp
    moreover have "length (ths1 @ ths2) \<le> Suc k" "r = Ok () \<longrightarrow> length (ths1 @ ths2) = Suc k"
      using len1 g(5,6) by simp_all
    ultimately have "\<exists>ths. foundThreads s' = foundThreads s @ ths \<and> length ths \<le> Suc k \<and>
        (r = Ok () \<longrightarrow> length ths = Suc k)"
      by blast
    with f g Suc.hyps(2) show ?thesis
      by simp
  next
    case (Throw e)
    with v lt Suc.prems have "r = Throw e" "s' = s1"
      by (simp_all add: walkList.simps [of E state "Num n" i])
    with f Throw Suc.hyps(2) show ?thesis by simp
  next
    case Hang
    with f show ?thesis by simp
  qed
qed

lemma walkList_NaN: "walkList E state NaN i cur s = (Ok (), s)"
  by (simp add: walkList.simps)


lemma requests_issue [simp]: "requests (issue q s) = requests s @ [q]"
  by (simp add: issue_def)

lemma requests_logEntry [simp]: "requests (logEntry l s) = requests s"
  by (simp add: logEntry_def)












text \<open>
  Claim C5, as the code has it. Called while the target is not halted, \<^verbatim>\<open>getThreadInfo\<close>
  issues no request and leaves the view as it is, the records found so far included. It
  rejects with \<^verbatim>\<open>Busy\<close> when the list handle is resolved and fewer records than the declared
  count have been found; when the handle is absent or unresolved, or the count is
  reached, it resolves without an error, because that test comes first.
\<close>

theorem getThreadInfo_not_halted:
  assumes "progStatus E (now s) \<noteq> Stopped"
  shows "snd (getThreadInfo E varRef state s) = s \<and>
         fst (getThreadInfo E varRef state s) =
           (if (\<exists>v. varRef = Some v \<and> truthy_ref (varReference v)) \<and>
               \<not> js_le (to_number (uxCurrentNumberOfTasksVal s)) (Num (int (length (foundThreads s))))
            then Throw Busy else Ok ())"
  using assms by (cases varRef) (simp_all add: getThreadInfo_def)

theorem getThreadInfo_not_halted_witness:
  "progStatus (sampleEnv (Some ''2'') ''2'' tcbFull (Inr None) Running)
     (now (rtos0\<lparr>foundThreads := [sampleThread (Some ''1'') ''0x20000100'']\<rparr>)) \<noteq> Stopped \<and>
   getThreadInfo (sampleEnv (Some ''2'') ''2'' tcbFull (Inr None) Running)
     (Some (helper ''xDelayedTaskList1'' 2)) ''BLOCKED''
     (rtos0\<lparr>foundThreads := [sampleThread (Some ''1'') ''0x20000100'']\<rparr>) =
     (Throw Busy, rtos0\<lparr>foundThreads := [sampleThread (Some ''1'') ''0x20000100'']\<rparr>)"
proof -
  let ?E = "sampleEnv (Some ''2'') ''2'' tcbFull (Inr None) Running"
  let ?s = "rtos0\<lparr>foundThreads := [sampleThread (Some ''1'') ''0x20000100'']\<rparr>"
  have r: "progStatus ?E (now ?s) \<noteq> Stopped"
    by (simp add: sampleEnv_def)
  have c: "\<not> js_le (to_number (uxCurrentNumberOfTasksVal ?s)) (Num (int (length (foundThreads ?s))))"
    by (simp add: rtos0_def)
  have v: "truthy_ref (varReference (helper ''xDelayedTaskList1'' 2))"
    by (simp add: helper_def)
  from getThreadInfo_not_halted [OF r, of "Some (helper ''xDelayedTaskList1'' 2)" "''BLOCKED''"] c v
  have "snd (getThreadInfo ?E (Some (helper ''xDelayedTaskList1'' 2)) ''BLOCKED'' ?s) = ?s"
    "fst (getThreadInfo ?E (Some (helper ''xDelayedTaskList1'' 2)) ''BLOCKED'' ?s) = Throw Busy"
    by simp_all
  with r show ?thesis
    by (simp add: prod_eq_iff)
qed

text \<open>Against claim C5 as stated: the target runs, the suspended list of the sample view
  was never resolved, and the traversal of it resolves instead of failing with \<^verbatim>\<open>Busy\<close>.\<close>

theorem getThreadInfo_running_counterexample:
  "progStatus (sampleEnv (Some ''2'') ''2'' tcbFull (Inr None) Running) (now rtos0) = Running \<and>
   xSuspendedTaskList rtos0 = None \<and>
   getThreadInfo (sampleEnv (Some ''2'') ''2'' tcbFull (Inr None) Running)
     (xSuspendedTaskList rtos0) ''SUSPENDED'' rtos0 = (Ok (), rtos0)"
  by (simp add: getThreadInfo_def rtos0_def sampleEnv_def)

section \<open>Sorting and publishing\<close>

lemma mset_js_insert: "mset (js_insert cmp x ys) = add_mset x (mset ys)"
  by (induction ys) simp_all

lemma mset_js_sort: "mset (js_sort cmp xs) = mset xs"
  by (induction xs) (simp_all add: js_sort_def mset_js_insert)

lemma set_js_insert: "set (js_insert cmp x ys) = insert x (set ys)"
  using mset_js_insert [of cmp x ys] by (metis set_mset_mset set_mset_add_mset_insert)

lemma set_js_sort: "set (js_sort cmp xs) = set xs"
  using mset_js_sort [of cmp xs] by (metis set_mset_mset)

lemma sorted_js_insert:
  assumes "\<forall>y\<in>set ys. cmp x y = Num (key x - key y)" and "sorted (map key ys)"
  shows "sorted (map key (js_insert cmp x ys))"
  using assms
proof (induction ys)
  case Nil
  then show ?case by simp
next
  case (Cons y ys)
  then show ?case
    by (auto simp: set_js_insert)
qed

lemma sorted_js_sort:
  assumes "\<forall>x\<in>set xs. \<forall>y\<in>set xs. cmp x y = Num (key x - key y)"
  shows "sorted (map key (js_sort cmp xs))"
  using assms
proof (induction xs)
  case Nil
  then show ?case by (simp add: js_sort_def)
next
  case (Cons x xs)
  then have "sorted (map key (js_sort cmp xs))" by simp
  moreover have "\<forall>y\<in>set (js_sort cmp xs). cmp x y = Num (key x - key y)"
    using Cons.prems by (simp add: set_js_sort)
  ultimately have "sorted (map key (js_insert cmp x (js_sort cmp xs)))"
    by (rule sorted_js_insert [rotated])
  then show ?case by (simp add: js_sort_def)
qed

lemma js_sub_num_val: "a \<noteq> NaN \<Longrightarrow> b \<noteq> NaN \<Longrightarrow> js_sub a b = Num (num_val a - num_val b)"
  by (cases a; cases b) simp_all

text \<open>
  Claim C2, as the code has it. A pass that found at least one record publishes a
  permutation of the found records, and sorts the found list in place. Line 125 looks
  at the first found record only: when it carries a non-empty ID the records are
  compared by \<^verbatim>\<open>parseInt\<close> of their IDs, and otherwise by \<^verbatim>\<open>parseInt\<close> of their addresses.
  When that key is a number for every record, the published list is ascending in it.
\<close>

theorem publish_sorted:
  assumes "foundThreads s \<noteq> []"
    and "\<forall>t\<in>set (foundThreads s). sortKey (foundThreads s) t \<noteq> NaN"
  shows "\<exists>ths. publish s = (Ok (), s\<lparr>foundThreads := ths, finalThreads := ths\<rparr>) \<and>
               mset ths = mset (foundThreads s) \<and>
               sorted (map (\<lambda>t. num_val (sortKey (foundThreads s) t)) ths)"
proof -
  let ?key = "\<lambda>t. num_val (sortKey (foundThreads s) t)"
  obtain t ts where f: "foundThreads s = t # ts"
    using assms(1) by (cases "foundThreads s") auto
  show ?thesis
  proof (cases "truthy_str (ID t)")
    case True
    have "\<forall>x\<in>set (foundThreads s). \<forall>y\<in>set (foundThreads s). cmpID x y = Num (?key x - ?key y)"
      using assms(2) True f by (simp add: sortKey_def cmpID_def js_sub_num_val)
    then have "sorted (map ?key (js_sort cmpID (foundThreads s)))"
      by (rule sorted_js_sort)
    moreover have "sortFound (foundThreads s) = Inr (js_sort cmpID (foundThreads s))"
      by (simp add: sortFound_def f True)
    ultimately show ?thesis
      by (auto simp: publish_def mset_js_sort intro!: exI [of _ "js_sort cmpID (foundThreads s)"])
  next
    case False
    have "\<forall>x\<in>set (foundThreads s). \<forall>y\<in>set (foundThreads s). cmpAddress x y = Num (?key x - ?key y)"
      using assms(2) False f by (simp add: sortKey_def cmpAddress_def js_sub_num_val)
    then have "sorted (map ?key (js_sort cmpAddress (foundThreads s)))"
      by (rule sorted_js_sort)
    moreover have "sortFound (foundThreads s) = Inr (js_sort cmpAddress (foundThreads s))"
      by (simp add: sortFound_def f False)
    ultimately show ?thesis
      by (auto simp: publish_def mset_js_sort intro!: exI [of _ "js_sort cmpAddress (foundThreads s)"])
  qed
qed

lemma sample_keys:
  "sortKey [sampleThread (Some ''2'') ''0x20000100'', sampleThread (Some ''1'') ''0x20000200'']
     (sampleThread (Some ''2'') ''0x20000100'') = Num 2"
  "sortKey [sampleThread (Some ''2'') ''0x20000100'', sampleThread (Some ''1'') ''0x20000200'']
     (sampleThread (Some ''1'') ''0x20000200'') = Num 1"
  "sortKey [sampleThread None ''0x20000200'', sampleThread (Some ''1'') ''0x20000100'']
     (sampleThread None ''0x20000200'') = Num 536871424"
  "sortKey [sampleThread None ''0x20000200'', sampleThread (Some ''1'') ''0x20000100'']
     (sampleThread (Some ''1'') ''0x20000100'') = Num 536871168"
  by code_simp+

text \<open>Two found lists: one whose first record has an ID, published in the order of the
  IDs 1, 2; one whose first record has none, published in the order of the addresses.\<close>

theorem publish_sorted_witness:
  "finalThreads (snd (publish (rtos0\<lparr>foundThreads :=
       [sampleThread (Some ''2'') ''0x20000100'', sampleThread (Some ''1'') ''0x20000200'']\<rparr>))) =
     [sampleThread (Some ''1'') ''0x20000200'', sampleThread (Some ''2'') ''0x20000100''] \<and>
   sorted (map (\<lambda>t. num_val (sortKey
       [sampleThread (Some ''2'') ''0x20000100'', sampleThread (Some ''1'') ''0x20000200''] t))
     (finalThreads (snd (publish (rtos0\<lparr>foundThreads :=
       [sampleThread (Some ''2'') ''0x20000100'', sampleThread (Some ''1'') ''0x20000200'']\<rparr>))))) \<and>
   sorted (map (\<lambda>t. num_val (sortKey
       [sampleThread None ''0x20000200'', sampleThread (Some ''1'') ''0x20000100''] t))
     (finalThreads (snd (publish (rtos0\<lparr>foundThreads :=
       [sampleThread None ''0x20000200'', sampleThread (Some ''1'') ''0x20000100'']\<rparr>)))))"
proof -
  let ?a = "[sampleThread (Some ''2'') ''0x20000100'', sampleThread (Some ''1'') ''0x20000200'']"
  let ?b = "[sampleThread None ''0x20000200'', sampleThread (Some ''1'') ''0x20000100'']"
  have "finalThreads (snd (publish (rtos0\<lparr>foundThreads := ?a\<rparr>))) =
      [sampleThread (Some ''1'') ''0x20000200'', sampleThread (Some ''2'') ''0x20000100'']"
    by code_simp
  moreover
  from publish_sorted [of "rtos0\<lparr>foundThreads := ?a\<rparr>"] sample_keys(1,2)
  have "sorted (map (\<lambda>t. num_val (sortKey ?a t)) (finalThreads (snd (publish (rtos0\<lparr>foundThreads := ?a\<rparr>)))))"
    by auto
  moreover
  from publish_sorted [of "rtos0\<lparr>foundThreads := ?b\<rparr>"] sample_keys(3,4)
  have "sorted (map (\<lambda>t. num_val (sortKey ?b t)) (finalThreads (snd (publish (rtos0\<lparr>foundThreads := ?b\<rparr>)))))"
    by auto
  ultimately show ?thesis by blast
qed

text \<open>Against claim C2 as stated: the second of two found records has no ID, the first
  has one, and the published list is not in the order of the addresses.\<close>

theorem publish_mixed_ids_counterexample:
  "ID (sampleThread None ''0x20000100'') = None \<and>
   finalThreads (snd (publish (rtos0\<lparr>foundThreads :=
       [sampleThread (Some ''2'') ''0x20000200'', sampleThread None ''0x20000100'']\<rparr>))) =
     [sampleThread (Some ''2'') ''0x20000200'', sampleThread None ''0x20000100''] \<and>
   parseInt (Address (sampleThread (Some ''2'') ''0x20000200'')) = Num 536871424 \<and>
   parseInt (Address (sampleThread None ''0x20000100'')) = Num 536871168"
  by code_simp

section \<open>Two defects\<close>

text \<open>
  Claim C3 fails on the code. Without a static end of stack the read of the stack memory
  is awaited outside any \<^verbatim>\<open>try\<close>: on the sample target with a task control block that has
  no \<^verbatim>\<open>pxEndOfStack\<close> and a debugger that rejects the read, \<^verbatim>\<open>getStackInfo\<close> rejects, the
  traversal of a list of two nodes stops at the first node with no record built, the second
  node is never visited, and the promise of the traversal never settles.
\<close>

theorem unbounded_stack_read_failure_aborts_walk:
  "vals tcbPlain ''pxEndOfStack'' = None \<and>
   fst (getStackInfo (sampleEnv (Some ''2'') ''2'' tcbPlain (Inl (Rejected ''read failed'')) Stopped)
          tcbPlain 0xA5 rtos0) = Throw (Rejected ''read failed'') \<and>
   fst (getThreadInfo (sampleEnv (Some ''2'') ''2'' tcbPlain (Inl (Rejected ''read failed'')) Stopped)
          (xDelayedTaskList1 rtos0) ''BLOCKED'' rtos0) = Hang \<and>
   foundThreads (snd (getThreadInfo (sampleEnv (Some ''2'') ''2'' tcbPlain (Inl (Rejected ''read failed'')) Stopped)
          (xDelayedTaskList1 rtos0) ''BLOCKED'' rtos0)) = [] \<and>
   nodeVisits (snd (getThreadInfo (sampleEnv (Some ''2'') ''2'' tcbPlain (Inl (Rejected ''read failed'')) Stopped)
          (xDelayedTaskList1 rtos0) ''BLOCKED'' rtos0)) = 1 \<and>
   console (snd (getThreadInfo (sampleEnv (Some ''2'') ''2'' tcbPlain (Inl (Rejected ''read failed'')) Stopped)
          (xDelayedTaskList1 rtos0) ''BLOCKED'' rtos0)) = [ThreadInfoError (Rejected ''read failed'')]"
  by code_simp

text \<open>So the traversal of that list neither resolves nor yields a record.\<close>

theorem unbounded_stack_read_failure_aborts_walk_witness:
  "fst (getThreadInfo (sampleEnv (Some ''2'') ''2'' tcbPlain (Inl (Rejected ''read failed'')) Stopped)
          (xDelayedTaskList1 rtos0) ''BLOCKED'' rtos0) \<noteq> Ok () \<and>
   length (foundThreads (snd (getThreadInfo (sampleEnv (Some ''2'') ''2'' tcbPlain (Inl (Rejected ''read failed'')) Stopped)
          (xDelayedTaskList1 rtos0) ''BLOCKED'' rtos0))) = 0"
  using unbounded_stack_read_failure_aborts_walk by simp

text \<open>With a static end of stack the same failure is caught, as the claim says: the stack
  info is returned with no peak, and a record built from it shows \<^verbatim>\<open>Read mem fail\<close>.\<close>

lemma bounded_stack_read_failure:
  assumes "truthy_str (vals thInfo ''pxEndOfStack'')"
    and "\<forall>t a c. \<exists>e. readMemory E t a c = Inl e"
  shows "\<exists>si. fst (getStackInfo E thInfo wm s) = Ok si \<and> stackPeakUsed si = None"
proof -
  obtain rd where eq: "\<And>t a c. readMemory E t a c = Inl (rd t a c)"
    using assms(2) by metis
  show ?thesis
    using assms(1) by (simp add: getStackInfo_def Let_def eq)
qed

lemma no_peak_reported:
  assumes "stackPeakUsed si = None" and "truthy_numo (stackSize si)"
  shows "StackPeak (mkThread E s thInfo threadId thName state si) = Some ''Read mem fail''"
  using assms by (simp add: mkThread_def Let_def)

text \<open>
  Claim C1 fails on the code. A count of 2000 makes \<^verbatim>\<open>refresh\<close> publish the empty list and
  clear the stale flag; \<^verbatim>\<open>getHTML\<close> then takes the branch of the count mismatch, which
  does not return, and reads the keys of element 0 of the empty list, which throws. The
  two messages that tell an unreadable count from an implausible one sit in the branch
  for a stale view, which is not taken. An unreadable count and a count of 0 render the
  same text.
\<close>

theorem implausible_count_render_throws:
  "fst (refresh (sampleEnv (Some ''2000'') ''0'' tcbFull (Inr None) Stopped) rtos0) = Ok () \<and>
   finalThreads (snd (refresh (sampleEnv (Some ''2000'') ''0'' tcbFull (Inr None) Stopped) rtos0)) = [] \<and>
   stale (snd (refresh (sampleEnv (Some ''2000'') ''0'' tcbFull (Inr None) Stopped) rtos0)) = False \<and>
   uxCurrentNumberOfTasksVal (snd (refresh (sampleEnv (Some ''2000'') ''0'' tcbFull (Inr None) Stopped) rtos0))
     = Some (Num 2000) \<and>
   fst (getHTML (snd (refresh (sampleEnv (Some ''2000'') ''0'' tcbFull (Inr None) Stopped) rtos0)))
     = Inl TypeError \<and>
   fst (getHTML (snd (refresh (sampleEnv None ''0'' tcbFull (Inr None) Stopped) rtos0))) =
   fst (getHTML (snd (refresh (sampleEnv (Some ''0'') ''0'' tcbFull (Inr None) Stopped) rtos0)))"
  by code_simp

section \<open>The pass as a whole\<close>

lemma view_updates [simp]:
  "view (s\<lparr>pxReadyTasksListsItems := a\<rparr>) = view s"
  "view (s\<lparr>ulTotalRunTimeVal := b\<rparr>) = view s"
  "view (s\<lparr>curThreadAddr := c\<rparr>) = view s"
  "view (s\<lparr>uxCurrentNumberOfTasksVal := d\<rparr>) = view s"
  by (simp_all add: view_def)

lemma console_updates [simp]:
  "console (s\<lparr>pxReadyTasksListsItems := a\<rparr>) = console s"
  "console (s\<lparr>ulTotalRunTimeVal := b\<rparr>) = console s"
  "console (s\<lparr>curThreadAddr := c\<rparr>) = console s"
  by simp_all

lemma walkList_view:
  assumes "walkList E state tc i cur s = (r, s')"
  shows "view s' = view s" "r \<noteq> Hang"
proof -
  have "view s' = view s \<and> r \<noteq> Hang"
  proof (cases tc)
    case NaN
    with assms show ?thesis by (auto simp: walkList_NaN)
  next
    case (Num n)
    with assms walkList_bound [of E state n i cur s r s'] show ?thesis by simp
  qed
  then show "view s' = view s" "r \<noteq> Hang" by simp_all
qed

text \<open>A traversal leaves the published snapshot alone, and when its promise never settles
  the last line on the console is the \<^verbatim>\<open>read thread info error\<close> of line 214.\<close>

lemma getThreadInfo_frame:
  assumes "getThreadInfo E varRef state s = (r, s')"
  shows "view s' = view s \<and>
         (r = Hang \<longrightarrow> console s' \<noteq> [] \<and> (\<exists>e. last (console s') = ThreadInfoError e))"
proof (cases varRef)
  case None
  with assms show ?thesis by (auto simp: getThreadInfo_def)
next
  case (Some v)
  show ?thesis
  proof (cases "\<not> truthy_ref (varReference v) \<or>
      js_le (to_number (uxCurrentNumberOfTasksVal s)) (Num (int (length (foundThreads s))))")
    case True
    with assms Some show ?thesis by (auto simp: getThreadInfo_def)
  next
    case noop: False
    show ?thesis
    proof (cases "progStatus E (now s) = Stopped")
      case False
      with assms Some noop show ?thesis by (auto simp: getThreadInfo_def)
    next
      case True
      with assms Some noop have a: "andThen (request (ReqVarChildrenObj v) (varGetVarChildrenObj E (now s) v) s)
          (\<lambda>ob s1.
             let threadCount = parseInto (vals ob ''uxNumberOfItems'');
                 listEndRef = refs ob ''xListEnd''
             in if js_le threadCount (Num 0) \<or> \<not> truthy_ref listEndRef then (Ok (), s1)
                else (case andThen (request (ReqChildrenObj listEndRef ''xListEnd'')
                                      (getVarChildrenObj E (now s1) listEndRef ''xListEnd'') s1)
                             (\<lambda>listEndObj s2.
                                walkList E state threadCount 0 (refs listEndObj ''pxPrevious'') s2) of
                        (Ok u, s3) \<Rightarrow> (Ok (), s3)
                      | (Throw e, s3) \<Rightarrow> (Hang, logEntry (ThreadInfoError e) s3)
                      | (Hang, s3) \<Rightarrow> (Hang, s3))) = (r, s')"
        by (simp add: getThreadInfo_def)
      then show ?thesis
      proof (cases rule: andThenE)
        case (ok ob s1)
        note p1 = request_frame [OF ok(1)]
        show ?thesis
        proof (cases "js_le (parseInto (vals ob ''uxNumberOfItems'')) (Num 0) \<or>
            \<not> truthy_ref (refs ob ''xListEnd'')")
          case True
          with ok(2) p1 show ?thesis by (auto simp: Let_def)
        next
          case False
          obtain rw sw where w: "andThen (request (ReqChildrenObj (refs ob ''xListEnd'') ''xListEnd'')
                (getVarChildrenObj E (now s1) (refs ob ''xListEnd'') ''xListEnd'') s1)
              (\<lambda>listEndObj s2. walkList E state (parseInto (vals ob ''uxNumberOfItems'')) 0
                  (refs listEndObj ''pxPrevious'') s2) = (rw, sw)"
            by (metis surj_pair)
          with ok(2) False have res: "(r, s') = (case rw of Ok u \<Rightarrow> (Ok (), sw)
              | Throw e \<Rightarrow> (Hang, logEntry (ThreadInfoError e) sw) | Hang \<Rightarrow> (Hang, sw))"
            by (simp add: Let_def split: res.splits)
          from w have vw: "view sw = view s1 \<and> rw \<noteq> Hang"
          proof (cases rule: andThenE)
            case (ok listEndObj s2)
            from request_frame [OF ok(1)] walkList_view [OF ok(2)] show ?thesis by simp
          next
            case (throw e)
            from request_frame [OF throw(1)] throw(2) show ?thesis by simp
          next
            case hang
            from request_frame(5) [OF hang(1)] show ?thesis by simp
          qed
          with res p1 show ?thesis
            by (cases rw) auto
        qed
      next
        case (throw e)
        from request_frame [OF throw(1)] throw(2) show ?thesis by simp
      next
        case hang
        from request_frame(5) [OF hang(1)] show ?thesis by simp
      qed
    qed
  qed
qed

lemma traverseReady_frame:
  assumes "traverseReady E items s = (r, s')"
  shows "view s' = view s \<and>
         (r = Hang \<longrightarrow> console s' \<noteq> [] \<and> (\<exists>e. last (console s') = ThreadInfoError e))"
  using assms
proof (induction items arbitrary: s)
  case Nil
  then show ?case by auto
next
  case (Cons item items)
  obtain r1 s1 where g: "getThreadInfo E item ''READY'' s = (r1, s1)"
    by (metis surj_pair)
  note f = getThreadInfo_frame [OF g]
  show ?case
  proof (cases r1)
    case (Ok u)
    with Cons.prems g have "traverseReady E items s1 = (r, s')" by simp
    from Cons.IH [OF this] f show ?thesis by simp
  next
    case (Throw e)
    with Cons.prems g f show ?thesis by auto
  next
    case Hang
    with Cons.prems g f show ?thesis by auto
  qed
qed

lemma resolveItems_frame:
  assumes "resolveItems E vars acc s = (r, s')"
  shows "view s' = view s \<and> r \<noteq> Hang"
  using assms
proof (induction vars arbitrary: acc s)
  case Nil
  then show ?case by auto
next
  case (Cons v vars)
  show ?case
  proof (cases "getVarIfEmpty E (now s) v")
    case (Inl e)
    with Cons.prems show ?thesis by auto
  next
    case (Inr h)
    with Cons.prems have "resolveItems E vars (acc @ [h]) (issue (ReqGetVarIfEmpty v) s) = (r, s')"
      by simp
    from Cons.IH [OF this] show ?thesis by simp
  qed
qed

lemma quiet_andThen:
  assumes "quiet s m" and "\<And>x s1. m = (Ok x, s1) \<Longrightarrow> quiet s1 (f x s1)"
  shows "quiet s (andThen m f)"
proof (cases m)
  case (Pair rm sm)
  show ?thesis
  proof (cases rm)
    case (Ok x)
    with Pair assms(1) assms(2) [of x sm] show ?thesis
      by (simp add: quiet_def andThen_def)
  next
    case (Throw e)
    with Pair assms(1) show ?thesis by (simp add: quiet_def andThen_def)
  next
    case Hang
    with Pair assms(1) show ?thesis by (simp add: quiet_def andThen_def)
  qed
qed

lemma quiet_request: "quiet s (request q a s)"
  by (cases a) (simp_all add: quiet_def request_def)

lemma quiet_Ok [simp]: "quiet s (Ok x, s1) = (view s1 = view s)"
  by (simp add: quiet_def)

lemma quiet_Throw [simp]: "quiet s (Throw e, s1) = (view s1 = view s)"
  by (simp add: quiet_def)

lemma quiet_getThreadInfo: "quiet s (getThreadInfo E varRef state s)"
  using getThreadInfo_frame [of E varRef state s] by (cases "getThreadInfo E varRef state s") (simp add: quiet_def)

lemma quiet_traverseReady: "quiet s (traverseReady E items s)"
  using traverseReady_frame [of E items s] by (cases "traverseReady E items s") (simp add: quiet_def)

lemma quiet_resolveItems: "quiet s (resolveItems E vars acc s)"
  using resolveItems_frame [of E vars acc s] by (cases "resolveItems E vars acc s") (simp add: quiet_def)

lemma quiet_view: "quiet s m \<Longrightarrow> view s = view s0 \<Longrightarrow> quiet s0 m"
  by (simp add: quiet_def)

lemma quiet_collect: "quiet s (collect E s)"
  unfolding collect_def
proof (intro quiet_andThen)
  show "quiet s (case pxReadyTasksListsItems s of
      None \<Rightarrow> andThen (request (ReqGetVarChildren (pxReadyTasksLists s))
                        (getVarChildren E (now s) (pxReadyTasksLists s)) s)
                (\<lambda>vars s1. andThen (resolveItems E vars [] s1)
                    (\<lambda>tmpArray s2. (Ok (), s2\<lparr>pxReadyTasksListsItems := Some tmpArray\<rparr>)))
    | Some items \<Rightarrow> (Ok (), s))"
  proof (cases "pxReadyTasksListsItems s")
    case None
    have "quiet s (andThen (request (ReqGetVarChildren (pxReadyTasksLists s))
                        (getVarChildren E (now s) (pxReadyTasksLists s)) s)
                (\<lambda>vars s1. andThen (resolveItems E vars [] s1)
                    (\<lambda>tmpArray s2. (Ok (), s2\<lparr>pxReadyTasksListsItems := Some tmpArray\<rparr>))))"
      by (intro quiet_andThen quiet_request quiet_resolveItems) simp
    with None show ?thesis by simp
  next
    case (Some items)
    then show ?thesis by simp
  qed
next
  fix s1 :: rtos
  show "quiet s1 (case ulTotalRunTime s1 of None \<Rightarrow> (Ok (), s1)
      | Some h \<Rightarrow> andThen (request (ReqGetValue h) (getValue E (now s1) h) s1)
                    (\<lambda>tmp s2. (Ok (), s2\<lparr>ulTotalRunTimeVal := Some (parseInto tmp)\<rparr>)))"
  proof (cases "ulTotalRunTime s1")
    case None
    then show ?thesis by simp
  next
    case (Some h)
    have "quiet s1 (andThen (request (ReqGetValue h) (getValue E (now s1) h) s1)
                    (\<lambda>tmp s2. (Ok (), s2\<lparr>ulTotalRunTimeVal := Some (parseInto tmp)\<rparr>)))"
      by (intro quiet_andThen quiet_request) simp
    with Some show ?thesis by simp
  qed
next
  fix s2 :: rtos
  show "quiet s2 (request (ReqGetValue (pxCurrentTCB s2)) (getValue E (now s2) (pxCurrentTCB s2)) s2)"
    by (rule quiet_request)
next
  fix cur and s3 :: rtos
  show "quiet s3 (case pxReadyTasksListsItems s3 of
      None \<Rightarrow> (Throw TypeError, s3\<lparr>curThreadAddr := Some (parseInto cur)\<rparr>)
    | Some items \<Rightarrow> traverseReady E items (s3\<lparr>curThreadAddr := Some (parseInto cur)\<rparr>))"
  proof (cases "pxReadyTasksListsItems s3")
    case None
    then show ?thesis by simp
  next
    case (Some items)
    have "quiet s3 (traverseReady E items (s3\<lparr>curThreadAddr := Some (parseInto cur)\<rparr>))"
      by (rule quiet_view [OF quiet_traverseReady]) simp
    with Some show ?thesis by simp
  qed
qed (rule quiet_getThreadInfo)+

lemma collect_frame:
  assumes "collect E s = (r, s')"
  shows "view s' = view s"
    and "r = Hang \<Longrightarrow> console s' \<noteq> [] \<and> (\<exists>e. last (console s') = ThreadInfoError e)"
  using quiet_collect [of s E] assms by (simp_all add: quiet_def)

lemma view_setCount [simp]: "view (setCount str s) = view s"
  by (simp add: setCount_def)

lemma view_beginPass:
  "finalThreads (beginPass E s) = finalThreads s" "lastValidHtml (beginPass E s) = lastValidHtml s"
  "stale (beginPass E s)" "foundThreads (beginPass E s) = []" "console (beginPass E s) = console s"
  "uxCurrentNumberOfTasks (beginPass E s) = uxCurrentNumberOfTasks s" "now (beginPass E s) = now s"
  by (simp_all add: beginPass_def now_def)

text \<open>What the body of the \<^verbatim>\<open>try\<close> leaves behind, by the way it ends.\<close>

lemma refreshBody_ends:
  assumes "refreshBody E str s = (r, s')"
  shows "(r \<noteq> Ok () \<longrightarrow> view s' = view s) \<and>
         (r = Hang \<longrightarrow> console s' \<noteq> [] \<and> (\<exists>e. last (console s') = ThreadInfoError e)) \<and>
         (r = Ok () \<and> foundThreads s = [] \<longrightarrow> \<not> stale s' \<and> finalThreads s' = foundThreads s')"
proof (cases "validCount (to_number (uxCurrentNumberOfTasksVal (setCount str s)))")
  case False
  with assms have "r = Ok ()"
    "s' = (setCount str s)\<lparr>finalThreads := [], stale := False,
              timeInfo := timeInfo (setCount str s) @ '' in '' @ deltaMs E @ '' ms''\<rparr>"
    by (simp_all add: refreshBody_def andThen_def Let_def)
  then show ?thesis
    by (simp add: setCount_def)
next
  case True
  obtain rc sc where c: "collect E (setCount str s) = (rc, sc)"
    by (metis surj_pair)
  note fc = collect_frame [OF c]
  show ?thesis
  proof (cases rc)
    case (Ok u)
    show ?thesis
    proof (cases "sortFound (foundThreads sc)")
      case (Inl e)
      with assms True c Ok have "r = Throw e" "s' = sc"
        by (simp_all add: refreshBody_def andThen_def Let_def publish_def)
      with fc show ?thesis by simp
    next
      case (Inr ths)
      with assms True c Ok have "r = Ok ()"
        "s' = sc\<lparr>foundThreads := ths, finalThreads := ths, stale := False,
                 timeInfo := timeInfo sc @ '' in '' @ deltaMs E @ '' ms''\<rparr>"
        by (simp_all add: refreshBody_def andThen_def Let_def publish_def)
      then show ?thesis by simp
    qed
  next
    case (Throw e)
    with assms True c have "r = Throw e" "s' = sc"
      by (simp_all add: refreshBody_def andThen_def Let_def)
    with fc show ?thesis by simp
  next
    case Hang
    with assms True c have "r = Hang" "s' = sc"
      by (simp_all add: refreshBody_def andThen_def Let_def)
    with fc Hang show ?thesis by simp
  qed
qed

lemma view_fields:
  "view a = view b \<Longrightarrow>
     finalThreads a = finalThreads b \<and> stale a = stale b \<and> lastValidHtml a = lastValidHtml b"
  by (simp add: view_def)

lemma refresh_unfold:
  assumes "progStatus E (now s) = Stopped"
  shows "refresh E s =
     (case getValue E (now s) (uxCurrentNumberOfTasks s) of
        Inl reason \<Rightarrow> (Ok (), logEntry (RefreshFailed reason)
                                 (issue (ReqGetValue (uxCurrentNumberOfTasks s)) (beginPass E s)))
      | Inr str \<Rightarrow>
          (case refreshBody E str (issue (ReqGetValue (uxCurrentNumberOfTasks s)) (beginPass E s)) of
             (Ok u, s2) \<Rightarrow> (Ok (), s2)
           | (Throw e, s2) \<Rightarrow> (Ok (), logEntry (RefreshFailed e) s2)
           | (Hang, s2) \<Rightarrow> (Hang, s2)))"
  using assms
  by (cases "getValue E (now s) (uxCurrentNumberOfTasks s)") (simp_all add: refresh_def Let_def view_beginPass)

lemma started_view:
  "finalThreads (issue q (beginPass E s)) = finalThreads s"
  "lastValidHtml (issue q (beginPass E s)) = lastValidHtml s"
  "stale (issue q (beginPass E s))"
  "foundThreads (issue q (beginPass E s)) = []"
  "console (issue q (beginPass E s)) = console s"
  by (simp_all add: issue_def beginPass_def)

lemma fields_logEntry [simp]:
  "finalThreads (logEntry l s) = finalThreads s" "lastValidHtml (logEntry l s) = lastValidHtml s"
  "stale (logEntry l s) = stale s"
  by (simp_all add: logEntry_def)

text \<open>
  Claim C6. A pass that does not run to its end, because the count cannot be read, because
  an exception reaches the \<^verbatim>\<open>catch\<close> of \<^verbatim>\<open>refresh\<close>, or because a traversal swallows an
  exception and never settles, leaves the published list and the HTML of the last
  rendering as they were, with the stale flag set, and the exception is the last line
  on the console. The published list changes only in a pass that ran to its end, and is
  then the whole found list, sorted.
\<close>

theorem refresh_failure_keeps_snapshot:
  assumes "progStatus E (now s) = Stopped"
  shows "(passOutcome E s \<noteq> Ok () \<longrightarrow>
            finalThreads (snd (refresh E s)) = finalThreads s \<and>
            lastValidHtml (snd (refresh E s)) = lastValidHtml s \<and>
            stale (snd (refresh E s)) \<and>
            console (snd (refresh E s)) \<noteq> [] \<and>
            ((\<exists>e. passOutcome E s = Throw e \<and> fst (refresh E s) = Ok () \<and>
                  last (console (snd (refresh E s))) = RefreshFailed e) \<or>
             (passOutcome E s = Hang \<and> fst (refresh E s) = Hang \<and>
                (\<exists>e. last (console (snd (refresh E s))) = ThreadInfoError e)))) \<and>
         (finalThreads (snd (refresh E s)) = finalThreads s \<or>
          (passOutcome E s = Ok () \<and> fst (refresh E s) = Ok () \<and> stale (snd (refresh E s)) = False \<and>
           finalThreads (snd (refresh E s)) = foundThreads (snd (refresh E s))))"
proof (cases "getValue E (now s) (uxCurrentNumberOfTasks s)")
  case (Inl e)
  then have "passOutcome E s = Throw e"
    by (simp add: passOutcome_def)
  moreover from Inl have "refresh E s = (Ok (), logEntry (RefreshFailed e)
      (issue (ReqGetValue (uxCurrentNumberOfTasks s)) (beginPass E s)))"
    by (simp add: refresh_unfold [OF assms])
  ultimately show ?thesis
    by (simp add: started_view)
next
  case (Inr str)
  let ?s1 = "issue (ReqGetValue (uxCurrentNumberOfTasks s)) (beginPass E s)"
  obtain rb sb where b: "refreshBody E str ?s1 = (rb, sb)"
    by (metis surj_pair)
  from Inr b have po: "passOutcome E s = rb"
    by (simp add: passOutcome_def)
  from Inr b have rf: "refresh E s = (case rb of Ok u \<Rightarrow> (Ok (), sb)
      | Throw e \<Rightarrow> (Ok (), logEntry (RefreshFailed e) sb) | Hang \<Rightarrow> (Hang, sb))"
    by (simp add: refresh_unfold [OF assms] split: res.splits)
  note ends = refreshBody_ends [OF b]
  show ?thesis
  proof (cases rb)
    case (Ok u)
    with ends have "\<not> stale sb \<and> finalThreads sb = foundThreads sb"
      by (simp add: view_beginPass)
    with Ok po rf show ?thesis by simp
  next
    case (Throw e)
    with ends have "view sb = view ?s1" by simp
    from view_fields [OF this] Throw po rf show ?thesis
      by (simp add: started_view)
  next
    case Hang
    with ends have "view sb = view ?s1" "console sb \<noteq> []" "\<exists>e. last (console sb) = ThreadInfoError e"
      by simp_all
    with view_fields [OF this(1)] Hang po rf show ?thesis
      by (simp add: started_view)
  qed
qed

lemma sample_stopped: "progStatus (sampleEnv cnt items tcb mem Stopped) t = Stopped"
  by (simp add: sampleEnv_def)

lemma sample_outcomes:
  "passOutcome (sampleEnv (Some ''2'') ''0'' tcbFull (Inr None) Stopped) rtos0 = Throw TypeError"
  "passOutcome (sampleEnv (Some ''2'') ''2'' tcbPlain (Inl (Rejected ''read failed'')) Stopped) rtos0 = Hang"
  by code_simp+

text \<open>Two passes over the sample view, which holds two published tasks: one finds no task and
  throws at the sort, one hangs in a traversal after a failed read. Both leave the two
  tasks published and stale.\<close>

theorem refresh_failure_keeps_snapshot_witness:
  "progStatus (sampleEnv (Some ''2'') ''0'' tcbFull (Inr None) Stopped) (now rtos0) = Stopped \<and>
   passOutcome (sampleEnv (Some ''2'') ''0'' tcbFull (Inr None) Stopped) rtos0 = Throw TypeError \<and>
   fst (refresh (sampleEnv (Some ''2'') ''0'' tcbFull (Inr None) Stopped) rtos0) = Ok () \<and>
   finalThreads (snd (refresh (sampleEnv (Some ''2'') ''0'' tcbFull (Inr None) Stopped) rtos0)) =
     finalThreads rtos0 \<and>
   stale (snd (refresh (sampleEnv (Some ''2'') ''0'' tcbFull (Inr None) Stopped) rtos0)) \<and>
   last (console (snd (refresh (sampleEnv (Some ''2'') ''0'' tcbFull (Inr None) Stopped) rtos0))) =
     RefreshFailed TypeError \<and>
   passOutcome (sampleEnv (Some ''2'') ''2'' tcbPlain (Inl (Rejected ''read failed'')) Stopped) rtos0 = Hang \<and>
   fst (refresh (sampleEnv (Some ''2'') ''2'' tcbPlain (Inl (Rejected ''read failed'')) Stopped) rtos0) = Hang \<and>
   finalThreads (snd (refresh (sampleEnv (Some ''2'') ''2'' tcbPlain (Inl (Rejected ''read failed'')) Stopped) rtos0)) =
     finalThreads rtos0 \<and>
   stale (snd (refresh (sampleEnv (Some ''2'') ''2'' tcbPlain (Inl (Rejected ''read failed'')) Stopped) rtos0)) \<and>
   length (finalThreads rtos0) = 2"
proof -
  have n: "length (finalThreads rtos0) = 2"
    by (simp add: rtos0_def)
  from refresh_failure_keeps_snapshot [OF sample_stopped, of "Some ''2''" "''0''" tcbFull "Inr None" rtos0]
    refresh_failure_keeps_snapshot [OF sample_stopped, of "Some ''2''" "''2''" tcbPlain
      "Inl (Rejected ''read failed'')" rtos0]
    sample_outcomes sample_stopped n
  show ?thesis by auto
qed

text \<open>
  Claim C10. When the count read is between 1 and 1024 and the traversal of all lists
  comes back without an exception and without a single record, reading the ID of
  element 0 of the empty found list throws; \<^verbatim>\<open>refresh\<close> catches the \<^verbatim>\<open>TypeError\<close>, writes
  it to the console and resolves. No list is published: the one published before stays,
  and the view stays stale.
\<close>

theorem empty_traversal_keeps_prior_snapshot:
  assumes "progStatus E (now s) = Stopped"
    and "getValue E (now s) (uxCurrentNumberOfTasks s) = Inr str"
    and "truthy_str str" and "parseInto str = Num n" and "0 < n" and "n \<le> 1024"
    and "fst (collect E (countRead E str s)) = Ok ()"
    and "foundThreads (snd (collect E (countRead E str s))) = []"
  shows "fst (refresh E s) = Ok () \<and>
         finalThreads (snd (refresh E s)) = finalThreads s \<and>
         lastValidHtml (snd (refresh E s)) = lastValidHtml s \<and>
         stale (snd (refresh E s)) \<and>
         console (snd (refresh E s)) =
           console (snd (collect E (countRead E str s))) @ [RefreshFailed TypeError]"
proof -
  let ?s1 = "issue (ReqGetValue (uxCurrentNumberOfTasks s)) (beginPass E s)"
  obtain sc where c: "collect E (setCount str ?s1) = (Ok (), sc)" and fd: "foundThreads sc = []"
    using assms(7,8) by (cases "collect E (setCount str ?s1)") (auto simp: countRead_def)
  have valid: "validCount (to_number (uxCurrentNumberOfTasksVal (setCount str ?s1)))"
    using assms(3-6) by (simp add: validCount_def setCount_def maxThreads_def)
  have "publish sc = (Throw TypeError, sc)"
    using fd by (simp add: publish_def sortFound_def)
  with c valid have "refreshBody E str ?s1 = (Throw TypeError, sc)"
    by (simp add: refreshBody_def andThen_def Let_def)
  with assms(2) have rf: "refresh E s = (Ok (), logEntry (RefreshFailed TypeError) sc)"
    by (simp add: refresh_unfold [OF assms(1)])
  from collect_frame(1) [OF c] have "view sc = view ?s1"
    by simp
  from view_fields [OF this] rf c show ?thesis
    by (simp add: started_view countRead_def)
qed

lemma sample_empty:
  "getValue (sampleEnv (Some ''1'') ''0'' tcbFull (Inr None) Stopped) (now rtos0)
     (uxCurrentNumberOfTasks rtos0) = Inr (Some ''1'')"
  "truthy_str (Some ''1'')"
  "parseInto (Some ''1'') = Num 1"
  "(0::int) < 1"
  "(1::int) \<le> 1024"
  "fst (collect (sampleEnv (Some ''1'') ''0'' tcbFull (Inr None) Stopped)
          (countRead (sampleEnv (Some ''1'') ''0'' tcbFull (Inr None) Stopped) (Some ''1'') rtos0)) = Ok ()"
  "foundThreads (snd (collect (sampleEnv (Some ''1'') ''0'' tcbFull (Inr None) Stopped)
          (countRead (sampleEnv (Some ''1'') ''0'' tcbFull (Inr None) Stopped) (Some ''1'') rtos0))) = []"
  by code_simp+

theorem empty_traversal_keeps_prior_snapshot_witness:
  "progStatus (sampleEnv (Some ''1'') ''0'' tcbFull (Inr None) Stopped) (now rtos0) = Stopped \<and>
   parseInto (Some ''1'') = Num 1 \<and>
   fst (collect (sampleEnv (Some ''1'') ''0'' tcbFull (Inr None) Stopped)
          (countRead (sampleEnv (Some ''1'') ''0'' tcbFull (Inr None) Stopped) (Some ''1'') rtos0)) = Ok () \<and>
   foundThreads (snd (collect (sampleEnv (Some ''1'') ''0'' tcbFull (Inr None) Stopped)
          (countRead (sampleEnv (Some ''1'') ''0'' tcbFull (Inr None) Stopped) (Some ''1'') rtos0))) = [] \<and>
   fst (refresh (sampleEnv (Some ''1'') ''0'' tcbFull (Inr None) Stopped) rtos0) = Ok () \<and>
   finalThreads (snd (refresh (sampleEnv (Some ''1'') ''0'' tcbFull (Inr None) Stopped) rtos0)) =
     finalThreads rtos0 \<and>
   stale (snd (refresh (sampleEnv (Some ''1'') ''0'' tcbFull (Inr None) Stopped) rtos0)) \<and>
   length (finalThreads rtos0) = 2"
proof -
  have n: "length (finalThreads rtos0) = 2"
    by (simp add: rtos0_def)
  from empty_traversal_keeps_prior_snapshot [OF sample_stopped sample_empty]
    sample_stopped sample_empty n
  show ?thesis by simp
qed

end
